theory Spec2Isabelle
  imports Complex_Main
begin

section \<open>JavaScript values\<close>

text \<open>
  The entity classes of \<^verbatim>\<open>src/entity.js\<close> and \<^verbatim>\<open>src/simple-entity.js\<close> receive arbitrary
  JavaScript values and test them with \<^verbatim>\<open>typeof\<close> and the checks of the argument
  validator, so values are a datatype with one constructor per kind of value that the code
  distinguishes. Numbers are IEEE doubles: the finite ones are rationals, and the three
  special values are constructors of their own. Strings are sequences of 8-bit code units
  (the Latin-1 range). An object is the list of its own enumerable properties in the order
  of their creation; prototype properties are not represented. A function is opaque and
  carries an identity only.

  An error object (an instance of \<^verbatim>\<open>Error\<close> or of a class derived from it) carries its
  class and two lists of own properties: those that are not enumerable (the \<^verbatim>\<open>message\<close>
  that the constructor sets, for one) and the enumerable ones (a \<^verbatim>\<open>code\<close> assigned later,
  for one). The class matters because the promise library treats an instance of \<^verbatim>\<open>Error\<close>
  itself differently from an instance of a derived class. \<open>Subclass n\<close> is a derived
  class whose prototype gives the name \<open>n\<close>. The stack trace is not represented.
\<close>

datatype jsnumber = Finite rat | PosInfinity | NegInfinity | NaN

datatype errclass = PlainError | OperationalError | Subclass string

datatype jsval =
    JUndefined
  | JNull
  | JBool bool
  | JNum jsnumber
  | JStr string
  | JObj "(string \<times> jsval) list"
  | JArr "jsval list"
  | JFun nat
  | JErr errclass "(string \<times> jsval) list" "(string \<times> jsval) list"

type_synonym jsobj = "(string \<times> jsval) list"

text \<open>
  What the entity code throws or rejects with: the errors that it creates itself, the
  TypeError of the runtime, and \<open>Raised v\<close> for a value \<open>v\<close> that came out of a
  rejected promise and is thrown on as it is. An operation of the entity either throws
  synchronously, or returns a promise that is rejected or resolved.
\<close>

datatype error =
    ArgError string
  | TypeError
  | DuplicateRecordError
  | ConcurrencyControlError
  | Raised jsval

datatype outcome = Thrown error | Rejected error | Resolved jsval

subsection \<open>Objects\<close>

text \<open>\<^verbatim>\<open>o[k]\<close> on an object: the value of the property, \<^verbatim>\<open>undefined\<close> when there is none.\<close>

definition obj_get :: "jsobj \<Rightarrow> string \<Rightarrow> jsval" where
  "obj_get ps k = (case map_of ps k of None \<Rightarrow> JUndefined | Some v \<Rightarrow> v)"

text \<open>\<^verbatim>\<open>o[k] = v\<close>: an existing property keeps its place, a new one is added at the end.\<close>

fun obj_set :: "jsobj \<Rightarrow> string \<Rightarrow> jsval \<Rightarrow> jsobj" where
  "obj_set [] k v = [(k, v)]"
| "obj_set ((k', v') # ps) k v =
     (if k' = k then (k, v) # ps else (k', v') # obj_set ps k v)"

text \<open>
  \<^verbatim>\<open>Object.keys(o)\<close> lists the property names that are array indices (canonical decimal
  numerals below \<^verbatim>\<open>2^32 - 1\<close>) first, in ascending numeric order, and then the other names
  in the order of their creation.
\<close>

definition is_digit :: "char \<Rightarrow> bool" where
  "is_digit c = (48 \<le> (of_char c :: nat) \<and> (of_char c :: nat) \<le> 57)"

definition index_value :: "string \<Rightarrow> nat" where
  "index_value k = foldl (\<lambda>n c. 10 * n + (of_char c - 48)) 0 k"

definition is_array_index :: "string \<Rightarrow> bool" where
  "is_array_index k =
     (k \<noteq> [] \<and> list_all is_digit k \<and> (k = ''0'' \<or> take 1 k \<noteq> ''0'')
      \<and> index_value k < 2 ^ 32 - 1)"

definition obj_keys :: "jsobj \<Rightarrow> string list" where
  "obj_keys ps =
     (let ks = map fst ps
      in sort_key index_value (filter is_array_index ks) @
         filter (\<lambda>k. \<not> is_array_index k) ks)"

fun digits :: "nat \<Rightarrow> string" where
  "digits n =
     (if n < 10 then [char_of (48 + n)] else digits (n div 10) @ [char_of (48 + n mod 10)])"

declare digits.simps [simp del]

fun indexed :: "nat \<Rightarrow> jsval list \<Rightarrow> jsobj" where
  "indexed i [] = []"
| "indexed i (v # vs) = (digits i, v) # indexed (Suc i) vs"

text \<open>
  The own enumerable properties that \<^verbatim>\<open>Object.assign\<close> copies from a source: none for
  \<^verbatim>\<open>undefined\<close>, \<^verbatim>\<open>null\<close>, booleans, numbers and (opaque) functions, the indexed
  characters of a string, the indexed elements of an array, the enumerable properties of an
  error object.
\<close>

fun own_props :: "jsval \<Rightarrow> jsobj" where
  "own_props (JObj ps) = ps"
| "own_props (JStr s) = indexed 0 (map (\<lambda>c. JStr [c]) s)"
| "own_props (JArr vs) = indexed 0 vs"
| "own_props (JErr c hidden enumerable) = enumerable"
| "own_props _ = []"

definition assign1 :: "jsobj \<Rightarrow> jsobj \<Rightarrow> jsobj" where
  "assign1 target src = foldl (\<lambda>t (k, v). obj_set t k v) target src"

text \<open>\<^verbatim>\<open>Object.assign(target, ...sources)\<close>: later sources overwrite earlier ones.\<close>

definition Object_assign :: "jsobj \<Rightarrow> jsval list \<Rightarrow> jsobj" where
  "Object_assign target sources = foldl (\<lambda>t s. assign1 t (own_props s)) target sources"

text \<open>
  A property of an error object: its own property when it has one; otherwise the
  \<^verbatim>\<open>name\<close> and the empty \<^verbatim>\<open>message\<close> that the prototype provides.
\<close>

fun class_name :: "errclass \<Rightarrow> string" where
  "class_name PlainError = ''Error''"
| "class_name OperationalError = ''Error''"
| "class_name (Subclass n) = n"

definition err_get :: "errclass \<Rightarrow> jsobj \<Rightarrow> jsobj \<Rightarrow> string \<Rightarrow> jsval" where
  "err_get c hidden enumerable k =
     (case map_of (hidden @ enumerable) k of
        Some v \<Rightarrow> v
      | None \<Rightarrow>
          if k = ''name'' then JStr (class_name c)
          else if k = ''message'' then JStr []
          else JUndefined)"

text \<open>
  A property read \<^verbatim>\<open>v[k]\<close> on any value: reading from \<^verbatim>\<open>undefined\<close> or \<^verbatim>\<open>null\<close> raises a
  TypeError; the other values without represented properties give \<^verbatim>\<open>undefined\<close> for
  the names read here.
\<close>

fun get_prop :: "jsval \<Rightarrow> string \<Rightarrow> error + jsval" where
  "get_prop JUndefined k = Inl TypeError"
| "get_prop JNull k = Inl TypeError"
| "get_prop (JObj ps) k = Inr (obj_get ps k)"
| "get_prop (JErr c hidden enumerable) k = Inr (err_get c hidden enumerable k)"
| "get_prop _ k = Inr JUndefined"

fun truthy :: "jsval \<Rightarrow> bool" where
  "truthy JUndefined = False"
| "truthy JNull = False"
| "truthy (JBool b) = b"
| "truthy (JNum n) = (n \<noteq> NaN \<and> n \<noteq> Finite 0)"
| "truthy (JStr s) = (s \<noteq> [])"
| "truthy _ = True"

subsection \<open>The argument validator\<close>

text \<open>
  \<^verbatim>\<open>_argValidator\<close> is the validator of the package \<^verbatim>\<open>@vamship/arg-utils\<close>, a dependency
  of the repository. Its checks, as the entity code calls them and as the unit tests of the
  repository exercise them: \<^verbatim>\<open>checkString(arg, minLength = 1)\<close> holds for a string of at
  least \<^verbatim>\<open>minLength\<close> characters (the tests list the empty string among the invalid
  usernames, versions, hash keys and range keys); \<^verbatim>\<open>checkNumber(arg, min = 1)\<close> holds for
  a number with \<^verbatim>\<open>arg >= min\<close> (the tests list \<^verbatim>\<open>-1\<close> among the invalid counts);
  \<^verbatim>\<open>checkObject\<close> holds for a non-null object that is not an array; \<^verbatim>\<open>checkFunction\<close>
  holds for a function. With an error message as last argument a failed check throws an
  ArgError with that message.
\<close>

fun number_ge :: "jsnumber \<Rightarrow> rat \<Rightarrow> bool" where
  "number_ge (Finite x) m = (m \<le> x)"
| "number_ge PosInfinity m = True"
| "number_ge NegInfinity m = False"
| "number_ge NaN m = False"

fun checkString :: "jsval \<Rightarrow> nat \<Rightarrow> bool" where
  "checkString (JStr s) minLength = (minLength \<le> length s)"
| "checkString _ minLength = False"

fun checkNumber :: "jsval \<Rightarrow> bool" where
  "checkNumber (JNum n) = number_ge n 1"
| "checkNumber _ = False"

fun checkObject :: "jsval \<Rightarrow> bool" where
  "checkObject (JObj ps) = True"
| "checkObject (JErr c hidden enumerable) = True"
| "checkObject _ = False"

fun checkFunction :: "jsval \<Rightarrow> bool" where
  "checkFunction (JFun f) = True"
| "checkFunction _ = False"

definition checkAndThrow :: "bool \<Rightarrow> string \<Rightarrow> error + unit" where
  "checkAndThrow isValid message = (if isValid then Inr () else Inl (ArgError message))"

section \<open>The Entity base class\<close>

text \<open>
  A field-selection policy is the \<^verbatim>\<open>copy(src, dest, transform)\<close> method of a
  \<^verbatim>\<open>SelectiveCopy\<close> object: it returns the destination object with the selected properties
  of the source added, each passed through the transform when there is one. The transform
  is a function of the caller and may throw, and then so does the copy. Concrete entities
  override \<^verbatim>\<open>_updateCopier\<close> and \<^verbatim>\<open>_deleteCopier\<close>, so a policy is a function held by
  the entity.
\<close>

type_synonym transform = "string \<Rightarrow> jsval \<Rightarrow> error + jsval"

type_synonym copier = "jsobj \<Rightarrow> jsval \<Rightarrow> transform option \<Rightarrow> error + jsobj"

text \<open>
  The \<^verbatim>\<open>copy\<close> method of \<^verbatim>\<open>new SelectiveCopy(properties)\<close> from the package
  \<^verbatim>\<open>selective-copy\<close>, for plain property names: every listed property that the source
  defines is written to the destination, through the transform when there is one. It is the
  policy of the default copier and of the concrete entity below; the operations work with
  any policy.
\<close>

fun copy_properties :: "string list \<Rightarrow> jsobj \<Rightarrow> transform option \<Rightarrow> jsobj \<Rightarrow> error + jsobj" where
  "copy_properties [] src transform result = Inr result"
| "copy_properties (property # properties) src transform result =
     (let v = obj_get src property in
      if v \<noteq> JUndefined
      then (case (case transform of None \<Rightarrow> Inr v | Some f \<Rightarrow> f property v) of
              Inl e \<Rightarrow> Inl e
            | Inr v' \<Rightarrow> copy_properties properties src transform (obj_set result property v'))
      else copy_properties properties src transform result)"

definition SelectiveCopy :: "string list \<Rightarrow> copier" where
  "SelectiveCopy properties src dest transform =
     copy_properties properties src transform (if checkObject dest then own_props dest else [])"

definition DEFAULT_COPIER :: copier where
  "DEFAULT_COPIER = SelectiveCopy []"

definition LOG_METHODS :: "string list" where
  "LOG_METHODS =
     [''trace'', ''debug'', ''info'', ''warn'', ''error'', ''fatal'', ''silent'', ''child'']"

text \<open>
  The loggers. \<^verbatim>\<open>getLogger(name, props)\<close> of the package \<^verbatim>\<open>@vamship/logger\<close> creates a
  logger, and \<^verbatim>\<open>logger.child(props)\<close> derives one from a logger, which may be one that the
  caller supplied. Both are calls into code outside the repository and may throw, so they
  are parameters that give either an error or a logger. Log messages do not influence any
  result and are left out of the operations below.
\<close>

record logger_lib =
  getLogger :: "string \<Rightarrow> jsval \<Rightarrow> error + jsval"
  child :: "jsval \<Rightarrow> jsval \<Rightarrow> error + jsval"

text \<open>
  What a concrete entity class defines: its name and the getters \<^verbatim>\<open>tableName\<close> and
  \<^verbatim>\<open>hashKeyName\<close> (strings, as their documented type says), \<^verbatim>\<open>rangeKeyName\<close>
  (\<open>None\<close> when the getter returns \<^verbatim>\<open>undefined\<close>, as the one of the base class does),
  \<^verbatim>\<open>_updateCopier\<close> and \<^verbatim>\<open>_deleteCopier\<close>.
\<close>

record entity_class =
  className :: string
  tableName :: string
  hashKeyName :: string
  rangeKeyName :: "string option"
  updateCopier :: copier
  deleteCopier :: copier

record entity =
  cls :: entity_class
  this_logger :: jsval
  this_username :: jsval
  this_awsRegion :: jsval
  this_awsCredentials :: jsval

text \<open>
  \<^verbatim>\<open>LOG_METHODS.reduce((result, method) => result && checkFunction(logger[method]), init)\<close>:
  the property of the logger is read only while the result is still true.
\<close>

fun reduce_LOG_METHODS :: "jsval \<Rightarrow> string list \<Rightarrow> bool \<Rightarrow> error + bool" where
  "reduce_LOG_METHODS logger [] result = Inr result"
| "reduce_LOG_METHODS logger (method # methods) result =
     (if result
      then (case get_prop logger method of
              Inl e \<Rightarrow> Inl e
            | Inr f \<Rightarrow> reduce_LOG_METHODS logger methods (checkFunction f))
      else reduce_LOG_METHODS logger methods result)"

definition Entity_constructor :: "logger_lib \<Rightarrow> entity_class \<Rightarrow> jsval \<Rightarrow> error + entity" where
  "Entity_constructor L C options0 =
     (let options = Object_assign [] [options0];
          username = obj_get options ''username'';
          logger = obj_get options ''logger'';
          awsRegion = obj_get options ''awsRegion'';
          awsCredentials = obj_get options ''awsCredentials''
      in case reduce_LOG_METHODS logger LOG_METHODS (checkObject logger) of
           Inl e \<Rightarrow> Inl e
         | Inr isLoggerValid \<Rightarrow>
             (case (if \<not> isLoggerValid then getLogger L (className C) (JObj [])
                    else Inr logger) of
                Inl e \<Rightarrow> Inl e
              | Inr logger \<Rightarrow>
                  let username = (if \<not> checkString username 1 then JStr ''SYSTEM'' else username);
                      awsRegion = (if \<not> checkString awsRegion 1 then JUndefined else awsRegion);
                      awsCredentials =
                        (if \<not> checkObject awsCredentials then JUndefined else awsCredentials)
                  in (case child L logger (JObj [(''entity'', JStr (tableName C))]) of
                        Inl e \<Rightarrow> Inl e
                      | Inr childLogger \<Rightarrow>
                          Inr \<lparr> cls = C,
                                this_logger = childLogger,
                                this_username = username,
                                this_awsRegion = awsRegion,
                                this_awsCredentials = awsCredentials \<rparr>)))"

definition Entity_getHashKey :: "entity \<Rightarrow> jsobj \<Rightarrow> error + jsval" where
  "Entity_getHashKey E keys =
     (let hashKey = obj_get keys (hashKeyName (cls E));
          isValidString = checkString hashKey 1;
          isValidNumber = checkNumber hashKey
      in if \<not> isValidString \<and> \<not> isValidNumber
         then Inl (ArgError (''Invalid hash key (keys.'' @ hashKeyName (cls E) @ '')''))
         else Inr hashKey)"

definition Entity_getRangeKey :: "entity \<Rightarrow> jsobj \<Rightarrow> bool \<Rightarrow> error + jsval" where
  "Entity_getRangeKey E keys allowUndefined =
     (case rangeKeyName (cls E) of
        None \<Rightarrow> Inr JUndefined
      | Some name \<Rightarrow>
          let rangeKey = obj_get keys name in
          if rangeKey = JUndefined \<and> allowUndefined then Inr rangeKey
          else
            let isValidString = checkString rangeKey 1;
                isValidNumber = checkNumber rangeKey
            in if \<not> isValidString \<and> \<not> isValidNumber
               then Inl (ArgError (''Invalid range key (keys.'' @ name @ '')''))
               else Inr rangeKey)"

definition Entity_getUsername :: "entity \<Rightarrow> jsval \<Rightarrow> jsval" where
  "Entity_getUsername E audit =
     (if \<not> checkObject audit \<or> \<not> checkString (obj_get (own_props audit) ''username'') 1
      then this_username E
      else obj_get (own_props audit) ''username'')"

record params =
  hashKey :: jsval
  rangeKey :: jsval
  username :: jsval

definition Entity_initParams ::
  "entity \<Rightarrow> jsval \<Rightarrow> string \<Rightarrow> jsval \<Rightarrow> bool \<Rightarrow> error + params" where
  "Entity_initParams E keys operation audit rangeKeyOptional =
     (case checkAndThrow (checkObject keys) ''Invalid keys (arg #1)'' of
        Inl e \<Rightarrow> Inl e
      | Inr _ \<Rightarrow>
          (case Entity_getHashKey E (own_props keys) of
             Inl e \<Rightarrow> Inl e
           | Inr hk \<Rightarrow>
               (case Entity_getRangeKey E (own_props keys) rangeKeyOptional of
                  Inl e \<Rightarrow> Inl e
                | Inr rk \<Rightarrow>
                    Inr \<lparr> hashKey = hk, rangeKey = rk,
                          username = Entity_getUsername E audit \<rparr>)))"

subsection \<open>The store client\<close>

text \<open>
  \<^verbatim>\<open>_dynamoDb(...).table(name)\<close> of the package \<^verbatim>\<open>@awspilot/dynamodb\<close> gives a fluent
  request builder: each call adds a clause to the request, and one of \<^verbatim>\<open>insert\<close>,
  \<^verbatim>\<open>get\<close>, \<^verbatim>\<open>query\<close>, \<^verbatim>\<open>update\<close>, \<^verbatim>\<open>delete\<close> sends it. The client is the record of
  the clauses added so far, in the order of the calls.
\<close>

record client =
  table :: string
  region :: jsval
  credentials :: jsval
  whereClauses :: "(jsval \<times> jsval) list"
  ifClauses :: "(jsval \<times> jsval) list"
  havingClauses :: "(jsval \<times> jsval) list"
  returnValues :: "jsval option"
  resumeToken :: "jsval option"
  limitCount :: "jsval option"

datatype action = Insert jsobj | Get | Query | Update jsobj | Delete

type_synonym request = "client \<times> action"

definition where_eq :: "client \<Rightarrow> jsval \<Rightarrow> jsval \<Rightarrow> client" where
  "where_eq c field v = c\<lparr>whereClauses := whereClauses c @ [(field, v)]\<rparr>"

definition if_eq :: "client \<Rightarrow> jsval \<Rightarrow> jsval \<Rightarrow> client" where
  "if_eq c field v = c\<lparr>ifClauses := ifClauses c @ [(field, v)]\<rparr>"

definition having_eq :: "client \<Rightarrow> jsval \<Rightarrow> jsval \<Rightarrow> client" where
  "having_eq c field v = c\<lparr>havingClauses := havingClauses c @ [(field, v)]\<rparr>"

definition client_return :: "client \<Rightarrow> jsval \<Rightarrow> client" where
  "client_return c r = c\<lparr>returnValues := Some r\<rparr>"

definition client_resume :: "client \<Rightarrow> jsval \<Rightarrow> client" where
  "client_resume c token = c\<lparr>resumeToken := Some token\<rparr>"

definition client_limit :: "client \<Rightarrow> jsval \<Rightarrow> client" where
  "client_limit c n = c\<lparr>limitCount := Some n\<rparr>"

text \<open>
  The constant \<^verbatim>\<open>ALL_OLD\<close> (the string \<^verbatim>\<open>'ALL_OLD'\<close>) and the method \<^verbatim>\<open>del\<close>, which
  returns the marker for the removal of an attribute, belong to the database object that
  \<^verbatim>\<open>_dynamoDb(...)\<close> returns, not to the request builder that \<^verbatim>\<open>table\<close> returns. On the
  builder, which is what \<^verbatim>\<open>_initClient\<close> returns, the property read \<^verbatim>\<open>client.ALL_OLD\<close>
  gives \<^verbatim>\<open>undefined\<close>, and the call \<^verbatim>\<open>client.del()\<close> raises a TypeError, since
  \<^verbatim>\<open>client.del\<close> is not a function.
\<close>

definition client_ALL_OLD :: jsval where
  "client_ALL_OLD = JUndefined"

definition client_del :: "error + jsval" where
  "client_del = Inl TypeError"

text \<open>The name of an optional getter as the value passed on: a string or \<^verbatim>\<open>undefined\<close>.\<close>

fun name_value :: "string option \<Rightarrow> jsval" where
  "name_value None = JUndefined"
| "name_value (Some n) = JStr n"

text \<open>A computed property key \<^verbatim>\<open>[name]\<close>: \<^verbatim>\<open>undefined\<close> becomes the string of that name.\<close>

fun property_key :: "string option \<Rightarrow> string" where
  "property_key None = ''undefined''"
| "property_key (Some n) = n"

definition Entity_initClient :: "entity \<Rightarrow> jsval \<Rightarrow> jsval \<Rightarrow> client" where
  "Entity_initClient E hk rk =
     (let client = \<lparr> table = tableName (cls E),
                      region = this_awsRegion E,
                      credentials = this_awsCredentials E,
                      whereClauses = [], ifClauses = [], havingClauses = [],
                      returnValues = None, resumeToken = None, limitCount = None \<rparr>;
          client = (if hk \<noteq> JUndefined
                    then where_eq client (JStr (hashKeyName (cls E))) hk else client);
          client = (if rk \<noteq> JUndefined
                    then where_eq client (name_value (rangeKeyName (cls E))) rk else client)
      in client)"

subsection \<open>The environment of a call\<close>

text \<open>
  A call reads the clock (\<^verbatim>\<open>Date.now()\<close>), draws identifiers (\<^verbatim>\<open>shortid.generate()\<close>)
  and sends requests to the store. The world holds the state of the store, the requests sent
  so far, the successive readings of the clock and the successive identifiers, with the
  number of readings and identifiers already consumed, and the runtime's conversion of a
  finite number to a string.
\<close>

record 's world =
  db :: 's
  sent :: "request list"
  clock :: "nat \<Rightarrow> int"
  reads :: nat
  ids :: "nat \<Rightarrow> string"
  made :: nat
  numberToString :: "rat \<Rightarrow> string"

definition Date_now :: "'s world \<Rightarrow> int \<times> 's world" where
  "Date_now w = (clock w (reads w), w\<lparr>reads := Suc (reads w)\<rparr>)"

definition shortId_generate :: "'s world \<Rightarrow> string \<times> 's world" where
  "shortId_generate w = (ids w (made w), w\<lparr>made := Suc (made w)\<rparr>)"

subsection \<open>Promises from callbacks\<close>

text \<open>
  \<^verbatim>\<open>Promise.promisify\<close> of the package \<^verbatim>\<open>bluebird\<close> turns an action with a callback into
  a promise. When the callback receives a truthy error, the promise is rejected, not with
  the error as it is, but with \<^verbatim>\<open>wrapAsOperationalError(maybeWrapAsError(err))\<close>: a
  primitive becomes \<^verbatim>\<open>new Error(String(err))\<close>, and an instance of \<^verbatim>\<open>Error\<close> itself (not
  of a derived class) becomes a new OperationalError with the name and the message of the
  error, the error as \<^verbatim>\<open>cause\<close>, \<^verbatim>\<open>isOperational\<close> set, and the enumerable properties of
  the error other than \<^verbatim>\<open>name\<close>, \<^verbatim>\<open>message\<close>, \<^verbatim>\<open>stack\<close> and \<^verbatim>\<open>cause\<close>. Every other
  object is passed on as it is (marked with a property that is not enumerable and not
  represented here). When the error is falsy, the promise is resolved with the data.
\<close>

fun isPrimitive :: "jsval \<Rightarrow> bool" where
  "isPrimitive JUndefined = True"
| "isPrimitive JNull = True"
| "isPrimitive (JBool b) = True"
| "isPrimitive (JNum n) = True"
| "isPrimitive (JStr s) = True"
| "isPrimitive _ = False"

text \<open>\<^verbatim>\<open>String(v)\<close> of a primitive; it is applied to primitives only.\<close>

fun safeToString :: "(rat \<Rightarrow> string) \<Rightarrow> jsval \<Rightarrow> string" where
  "safeToString f JUndefined = ''undefined''"
| "safeToString f JNull = ''null''"
| "safeToString f (JBool b) = (if b then ''true'' else ''false'')"
| "safeToString f (JNum (Finite x)) = f x"
| "safeToString f (JNum PosInfinity) = ''Infinity''"
| "safeToString f (JNum NegInfinity) = ''-Infinity''"
| "safeToString f (JNum NaN) = ''NaN''"
| "safeToString f (JStr s) = s"
| "safeToString f _ = ''[object Object]''"

text \<open>\<^verbatim>\<open>new Error(message)\<close>: the message is an own property that is not enumerable.\<close>

definition new_Error :: "string \<Rightarrow> jsval" where
  "new_Error message = JErr PlainError [(''message'', JStr message)] []"

definition maybeWrapAsError :: "(rat \<Rightarrow> string) \<Rightarrow> jsval \<Rightarrow> jsval" where
  "maybeWrapAsError f maybeError =
     (if \<not> isPrimitive maybeError then maybeError else new_Error (safeToString f maybeError))"

fun isUntypedError :: "jsval \<Rightarrow> bool" where
  "isUntypedError (JErr PlainError hidden enumerable) = True"
| "isUntypedError _ = False"

definition rErrorKey :: "string \<Rightarrow> bool" where
  "rErrorKey key = (key \<in> {''name'', ''message'', ''stack'', ''cause''})"

fun wrapAsOperationalError :: "jsval \<Rightarrow> jsval" where
  "wrapAsOperationalError (JErr PlainError hidden enumerable) =
     JErr OperationalError
       [(''name'', err_get PlainError hidden enumerable ''name''),
        (''message'', err_get PlainError hidden enumerable ''message'')]
       (assign1 [(''cause'', JErr PlainError hidden enumerable), (''isOperational'', JBool True)]
          (filter (\<lambda>(key, v). \<not> rErrorKey key) enumerable))"
| "wrapAsOperationalError obj = obj"

text \<open>The value that the promise is rejected with for a truthy error of the callback.\<close>

definition rejection :: "(rat \<Rightarrow> string) \<Rightarrow> jsval \<Rightarrow> jsval" where
  "rejection f err = wrapAsOperationalError (maybeWrapAsError f err)"

text \<open>
  The store answers a request by calling back with \<^verbatim>\<open>(err, data)\<close> and moves to a new
  state.
\<close>

type_synonym 's store = "request \<Rightarrow> 's \<Rightarrow> (jsval \<times> jsval) \<times> 's"

definition promisified :: "'s store \<Rightarrow> request \<Rightarrow> 's world \<Rightarrow> (error + jsval) \<times> 's world" where
  "promisified store req w =
     (let ((err, data), d) = store req (db w);
          w' = w\<lparr>db := d, sent := sent w @ [req]\<rparr>
      in (if truthy err
          then Inl (Raised (rejection (numberToString w) err))
          else Inr data, w'))"

text \<open>\<^verbatim>\<open>error.code\<close> of a rejection reason.\<close>

fun error_code :: "error \<Rightarrow> error + jsval" where
  "error_code (Raised v) = get_prop v ''code''"
| "error_code _ = Inr JUndefined"

text \<open>
  \<^verbatim>\<open>_execQuery\<close>: reads the clock, runs the query, and then either returns the results, or
  takes the \<^verbatim>\<open>code\<close> and the \<^verbatim>\<open>status\<close> of the error for the log and throws the error
  again; in both cases it reads the clock again for the logged duration. The query is the
  promisified action of the client, given here by the request that it sends.
\<close>

definition Entity_execQuery ::
  "'s store \<Rightarrow> request \<Rightarrow> 's world \<Rightarrow> (error + jsval) \<times> 's world" where
  "Entity_execQuery store query w =
     (let (startTime, w1) = Date_now w;
          (r, w2) = promisified store query w1
      in case r of
           Inr results \<Rightarrow> (let (endTime, w3) = Date_now w2 in (Inr results, w3))
         | Inl error \<Rightarrow>
             (case error_code error of
                Inl t \<Rightarrow> (Inl t, w2)
              | Inr code \<Rightarrow> (let (endTime, w3) = Date_now w2 in (Inl error, w3))))"

section \<open>SimpleEntity\<close>

definition timestamp :: "int \<Rightarrow> jsval" where
  "timestamp t = JNum (Finite (of_int t))"

definition SimpleEntity_create ::
  "'s store \<Rightarrow> entity \<Rightarrow> jsval \<Rightarrow> jsval \<Rightarrow> jsval \<Rightarrow> 's world \<Rightarrow> outcome \<times> 's world" where
  "SimpleEntity_create store E keys props audit w =
     (case checkAndThrow (checkObject props) ''Invalid props (arg #2)'' of
        Inl e \<Rightarrow> (Thrown e, w)
      | Inr _ \<Rightarrow>
          let rangeKeyOptional = \<not> truthy (name_value (rangeKeyName (cls E))) in
          (case Entity_initParams E keys ''create'' audit rangeKeyOptional of
             Inl e \<Rightarrow> (Thrown e, w)
           | Inr p \<Rightarrow>
               let client = Entity_initClient E JUndefined JUndefined;
                   (version, w1) = shortId_generate w;
                   (createDate, w2) = Date_now w1;
                   (updateDate, w3) = Date_now w2;
                   payload = Object_assign [] [props, keys,
                     JObj [(''__status'', JStr ''active''),
                           (''__version'', JStr version),
                           (''__createdBy'', username p),
                           (''__createDate'', timestamp createDate),
                           (''__updatedBy'', username p),
                           (''__updateDate'', timestamp updateDate)]];
                   (r, w4) = Entity_execQuery store (client, Insert payload) w3
               in (case r of
                     Inr results \<Rightarrow> (Resolved results, w4)
                   | Inl error \<Rightarrow>
                       (case error_code error of
                          Inl t \<Rightarrow> (Rejected t, w4)
                        | Inr code \<Rightarrow>
                            if code = JStr ''ConditionalCheckFailedException''
                            then (Rejected DuplicateRecordError, w4)
                            else (Rejected error, w4)))))"

definition SimpleEntity_lookup ::
  "'s store \<Rightarrow> entity \<Rightarrow> jsval \<Rightarrow> jsval \<Rightarrow> 's world \<Rightarrow> outcome \<times> 's world" where
  "SimpleEntity_lookup store E keys audit w =
     (case checkAndThrow (checkObject keys) ''Invalid keys (arg #1)'' of
        Inl e \<Rightarrow> (Thrown e, w)
      | Inr _ \<Rightarrow>
          let rangeKeyOptional = \<not> truthy (name_value (rangeKeyName (cls E))) in
          (case Entity_initParams E keys ''lookup'' audit rangeKeyOptional of
             Inl e \<Rightarrow> (Thrown e, w)
           | Inr p \<Rightarrow>
               let client = Entity_initClient E (hashKey p) (rangeKey p);
                   client = if_eq client (JStr ''__status'') (JStr ''active'');
                   (r, w1) = Entity_execQuery store (client, Get) w
               in (case r of
                     Inr results \<Rightarrow> (Resolved results, w1)
                   | Inl error \<Rightarrow> (Rejected error, w1))))"

text \<open>
  \<^verbatim>\<open>list\<close> takes the encoder of the store's key format as a parameter: \<open>converter obj\<close>
  stands for \<^verbatim>\<open>_awsSdk.DynamoDB.Converter.input(obj).M\<close>.
\<close>

definition SimpleEntity_list ::
  "'s store \<Rightarrow> (jsobj \<Rightarrow> jsval) \<Rightarrow> entity \<Rightarrow> jsval \<Rightarrow> jsval \<Rightarrow> jsval \<Rightarrow> 's world
     \<Rightarrow> outcome \<times> 's world" where
  "SimpleEntity_list store converter E keys count audit w =
     (case checkAndThrow (checkObject keys) ''Invalid keys (arg #1)'' of
        Inl e \<Rightarrow> (Thrown e, w)
      | Inr _ \<Rightarrow>
          (case Entity_initParams E keys ''list'' audit True of
             Inl e \<Rightarrow> (Thrown e, w)
           | Inr p \<Rightarrow>
               let client = Entity_initClient E (hashKey p) JUndefined;
                   client = having_eq client (JStr ''__status'') (JStr ''active'');
                   client =
                     (if rangeKey p \<noteq> JUndefined
                      then client_resume client
                             (converter
                                (obj_set (obj_set [] (hashKeyName (cls E)) (hashKey p))
                                   (property_key (rangeKeyName (cls E))) (rangeKey p)))
                      else client);
                   client = (if checkNumber count then client_limit client count else client);
                   (r, w1) = Entity_execQuery store (client, Query) w
               in (case r of
                     Inr results \<Rightarrow> (Resolved results, w1)
                   | Inl error \<Rightarrow> (Rejected error, w1))))"

text \<open>The object \<^verbatim>\<open>{keys, properties, __version: version}\<close> that \<^verbatim>\<open>update\<close> resolves with.\<close>

definition update_result :: "jsval \<Rightarrow> string list \<Rightarrow> jsval \<Rightarrow> jsval" where
  "update_result keys properties version =
     JObj [(''keys'', keys),
           (''properties'', JArr (map JStr properties)),
           (''__version'', version)]"

text \<open>
  The field set of an update: the update policy, then the delete policy on top of it, with
  the transform \<^verbatim>\<open>(property, value) => client.del()\<close>. The call of the transform throws,
  so the copy throws as soon as the delete policy selects a field.
\<close>

definition copyProps :: "entity \<Rightarrow> jsval \<Rightarrow> jsval \<Rightarrow> error + jsobj" where
  "copyProps E updateProps deleteProps =
     (case updateCopier (cls E) (own_props updateProps) JUndefined None of
        Inl e \<Rightarrow> Inl e
      | Inr propsToUpdate \<Rightarrow>
          deleteCopier (cls E) (own_props deleteProps) (JObj propsToUpdate)
            (Some (\<lambda>property value. client_del)))"

definition SimpleEntity_update ::
  "'s store \<Rightarrow> entity \<Rightarrow> jsval \<Rightarrow> jsval \<Rightarrow> jsval \<Rightarrow> jsval \<Rightarrow> jsval \<Rightarrow> 's world
     \<Rightarrow> outcome \<times> 's world" where
  "SimpleEntity_update store E keys updateProps deleteProps version audit w =
     (case checkAndThrow (checkObject keys) ''Invalid keys (arg #1)'' of
        Inl e \<Rightarrow> (Thrown e, w)
      | Inr _ \<Rightarrow>
     (case checkAndThrow (checkObject updateProps) ''Invalid update properties (arg #2)'' of
        Inl e \<Rightarrow> (Thrown e, w)
      | Inr _ \<Rightarrow>
     (case checkAndThrow (checkObject deleteProps) ''Invalid delete properties (arg #3)'' of
        Inl e \<Rightarrow> (Thrown e, w)
      | Inr _ \<Rightarrow>
     (case checkAndThrow (checkString version 1) ''Invalid version (arg #4)'' of
        Inl e \<Rightarrow> (Thrown e, w)
      | Inr _ \<Rightarrow>
          let rangeKeyOptional = \<not> truthy (name_value (rangeKeyName (cls E))) in
          (case Entity_initParams E keys ''update'' audit rangeKeyOptional of
             Inl e \<Rightarrow> (Thrown e, w)
           | Inr p \<Rightarrow>
               let client = Entity_initClient E (hashKey p) (rangeKey p);
                   client = if_eq client (JStr ''__status'') (JStr ''active'');
                   client = if_eq client (JStr ''__version'') version;
                   client = client_return client client_ALL_OLD
               in (case copyProps E updateProps deleteProps of
                     Inl e \<Rightarrow> (Thrown e, w)
                   | Inr propsToUpdate \<Rightarrow>
                       let properties = obj_keys propsToUpdate
                       in if length properties > 0
                          then
                            let (newVersion, w1) = shortId_generate w;
                                propsToUpdate =
                                  obj_set propsToUpdate ''__version'' (JStr newVersion);
                                propsToUpdate =
                                  obj_set propsToUpdate ''__updatedBy'' (username p);
                                (updateDate, w2) = Date_now w1;
                                propsToUpdate =
                                  obj_set propsToUpdate ''__updateDate'' (timestamp updateDate);
                                (r, w3) =
                                  Entity_execQuery store (client, Update propsToUpdate) w2
                            in (case r of
                                  Inr results \<Rightarrow>
                                    (Resolved (update_result keys properties version), w3)
                                | Inl error \<Rightarrow>
                                    (case error_code error of
                                       Inl t \<Rightarrow> (Rejected t, w3)
                                     | Inr code \<Rightarrow>
                                         if code = JStr ''ConditionalCheckFailedException''
                                         then (Rejected ConcurrencyControlError, w3)
                                         else (Rejected error, w3)))
                          else (Resolved (update_result keys properties version), w)))))))"

definition SimpleEntity_delete ::
  "'s store \<Rightarrow> entity \<Rightarrow> jsval \<Rightarrow> jsval \<Rightarrow> jsval \<Rightarrow> 's world \<Rightarrow> outcome \<times> 's world" where
  "SimpleEntity_delete store E keys version audit w =
     (case checkAndThrow (checkObject keys) ''Invalid keys (arg #1)'' of
        Inl e \<Rightarrow> (Thrown e, w)
      | Inr _ \<Rightarrow>
     (case checkAndThrow (checkString version 1) ''Invalid version (arg #2)'' of
        Inl e \<Rightarrow> (Thrown e, w)
      | Inr _ \<Rightarrow>
          let rangeKeyOptional = \<not> truthy (name_value (rangeKeyName (cls E))) in
          (case Entity_initParams E keys ''delete'' audit rangeKeyOptional of
             Inl e \<Rightarrow> (Thrown e, w)
           | Inr p \<Rightarrow>
               let client = Entity_initClient E (hashKey p) (rangeKey p);
                   client = if_eq client (JStr ''__status'') (JStr ''active'');
                   client = if_eq client (JStr ''__version'') version;
                   (r, w1) = Entity_execQuery store (client, Delete) w
               in (case r of
                     Inr results \<Rightarrow> (Resolved results, w1)
                   | Inl error \<Rightarrow>
                       (case error_code error of
                          Inl t \<Rightarrow> (Rejected t, w1)
                        | Inr code \<Rightarrow>
                            if code = JStr ''ConditionalCheckFailedException''
                            then (Rejected ConcurrencyControlError, w1)
                            else (Rejected error, w1))))))"

section \<open>A concrete entity\<close>

text \<open>
  An entity over the table \<^verbatim>\<open>range_key_table\<close> with hash key \<^verbatim>\<open>accountId\<close> and range key
  \<^verbatim>\<open>entityId\<close>, as the unit tests declare it, with policies that allow \<^verbatim>\<open>prop1\<close> and
  \<^verbatim>\<open>prop2\<close> to be updated and \<^verbatim>\<open>prop3\<close> and \<^verbatim>\<open>prop4\<close> to be deleted; a logger package
  whose \<^verbatim>\<open>getLogger\<close> requires a name that is not empty and throws an ArgError with the
  given message otherwise, and whose loggers derive themselves as children; a store that
  accepts every request and records it, and a store that fails every request with a given
  error; a world whose clock advances by one at every reading (its conversion of numbers to
  strings plays no role in the examples, which raise no number).
\<close>

definition RangeKeyEntity :: entity_class where
  "RangeKeyEntity =
     \<lparr> className = ''RangeKeyEntity'', tableName = ''range_key_table'',
       hashKeyName = ''accountId'', rangeKeyName = Some ''entityId'',
       updateCopier = SelectiveCopy [''prop1'', ''prop2''],
       deleteCopier = SelectiveCopy [''prop3'', ''prop4''] \<rparr>"

definition rangeKeyEntity :: entity where
  "rangeKeyEntity =
     \<lparr> cls = RangeKeyEntity, this_logger = JObj [], this_username = JStr ''SYSTEM'',
       this_awsRegion = JUndefined, this_awsCredentials = JUndefined \<rparr>"

definition namedLoggers :: "string \<Rightarrow> logger_lib" where
  "namedLoggers message =
     \<lparr> getLogger = (\<lambda>name props.
          if checkString (JStr name) 1 then Inr (JObj [(''name'', JStr name)])
          else Inl (ArgError message)),
       child = (\<lambda>logger props. Inr logger) \<rparr>"

definition acceptAll :: "request list store" where
  "acceptAll req s = ((JNull, JObj []), s @ [req])"

definition failWith :: "jsval \<Rightarrow> request list store" where
  "failWith err req s = ((err, JUndefined), s)"

definition world0 :: "request list world" where
  "world0 = \<lparr> db = [], sent = [], clock = (\<lambda>n. 1000 + int n), reads = 0,
              ids = (\<lambda>n. ''id'' @ digits n), made = 0, numberToString = (\<lambda>x. ''0'') \<rparr>"

definition testKeys :: jsval where
  "testKeys = JObj [(''accountId'', JStr ''acme''), (''entityId'', JStr ''e1'')]"

section \<open>Objects and merging\<close>

lemma distinct_partition:
  "distinct (filter P xs) \<Longrightarrow> distinct (filter (\<lambda>x. \<not> P x) xs) \<Longrightarrow> distinct xs"
  by (induction xs) (auto split: if_splits)

lemma set_obj_keys: "set (obj_keys ps) = fst ` set ps"
  by (auto simp: obj_keys_def Let_def)

lemma distinct_obj_keys: "distinct (obj_keys ps) = distinct (map fst ps)"
proof
  assume "distinct (obj_keys ps)"
  then have "distinct (filter is_array_index (map fst ps))"
    and "distinct (filter (\<lambda>k. \<not> is_array_index k) (map fst ps))"
    by (simp_all add: obj_keys_def Let_def)
  then show "distinct (map fst ps)" by (rule distinct_partition)
next
  assume "distinct (map fst ps)"
  then show "distinct (obj_keys ps)"
    by (auto simp: obj_keys_def Let_def)
qed

lemma length_obj_keys: "length (obj_keys ps) = length ps"
  using sum_length_filter_compl [of is_array_index "map fst ps"]
  by (simp add: obj_keys_def Let_def)

lemma obj_keys_Nil_iff: "obj_keys ps = [] \<longleftrightarrow> ps = []"
  using length_obj_keys [of ps] by (metis length_0_conv)

lemma obj_get_Cons: "obj_get ((k, v) # ps) k' = (if k' = k then v else obj_get ps k')"
  by (simp add: obj_get_def)

lemma obj_get_Nil: "obj_get [] k = JUndefined"
  by (simp add: obj_get_def)

lemma obj_get_obj_set: "obj_get (obj_set ps k v) k' = (if k' = k then v else obj_get ps k')"
  by (induction ps) (auto simp: obj_get_def)

lemma names_obj_set: "fst ` set (obj_set ps k v) = insert k (fst ` set ps)"
proof (induction ps)
  case Nil
  show ?case by simp
next
  case (Cons p ps)
  obtain k' v' where p: "p = (k', v')" by (cases p)
  from Cons.IH show ?case by (auto simp: p)
qed

lemma assign1_Cons: "assign1 t ((k, v) # src) = assign1 (obj_set t k v) src"
  by (simp add: assign1_def)

lemma names_assign1: "fst ` set (assign1 t src) = fst ` set t \<union> fst ` set src"
proof (induction src arbitrary: t)
  case Nil
  show ?case by (simp add: assign1_def)
next
  case (Cons p src)
  obtain k v where p: "p = (k, v)" by (cases p)
  have "fst ` set (assign1 (obj_set t k v) src) = fst ` set (obj_set t k v) \<union> fst ` set src"
    by (rule Cons.IH)
  then show ?case by (simp add: p assign1_Cons names_obj_set)
qed

lemma obj_get_assign1_distinct:
  "distinct (map fst src) \<Longrightarrow>
   obj_get (assign1 t src) k = (if k \<in> fst ` set src then obj_get src k else obj_get t k)"
proof (induction src arbitrary: t)
  case Nil
  show ?case by (simp add: assign1_def)
next
  case (Cons p src)
  obtain k' v' where p: "p = (k', v')" by (cases p)
  from Cons.prems have d: "distinct (map fst src)" and n: "k' \<notin> fst ` set src"
    by (simp_all add: p)
  have "obj_get (assign1 (obj_set t k' v') src) k =
          (if k \<in> fst ` set src then obj_get src k else obj_get (obj_set t k' v') k)"
    by (rule Cons.IH [OF d])
  with n show ?case
    by (auto simp: p assign1_Cons obj_get_obj_set obj_get_Cons)
qed

lemma obj_get_undefined: "k \<notin> fst ` set ps \<Longrightarrow> obj_get ps k = JUndefined"
  by (simp add: obj_get_def map_of_eq_None_iff [THEN iffD2])

section \<open>Key extraction\<close>









section \<open>The constructor\<close>

lemma get_prop_checkObject: "checkObject v \<Longrightarrow> \<exists>x. get_prop v k = Inr x"
  by (cases v) simp_all

lemma checkFunction_iff: "checkFunction v \<longleftrightarrow> (\<exists>f. v = JFun f)"
  by (cases v) simp_all

lemma reduce_LOG_METHODS_value:
  "(result \<longrightarrow> checkObject logger) \<Longrightarrow>
   reduce_LOG_METHODS logger ms result =
     Inr (result \<and> (\<forall>m\<in>set ms. \<exists>f. get_prop logger m = Inr (JFun f)))"
proof (induction ms arbitrary: result)
  case Nil
  then show ?case by simp
next
  case (Cons m ms)
  show ?case
  proof (cases result)
    case True
    with Cons.prems have obj: "checkObject logger" by simp
    from get_prop_checkObject [OF obj] obtain x where x: "get_prop logger m = Inr x" ..
    have "reduce_LOG_METHODS logger ms (checkFunction x) =
            Inr (checkFunction x \<and> (\<forall>m\<in>set ms. \<exists>f. get_prop logger m = Inr (JFun f)))"
      by (rule Cons.IH) (simp add: obj)
    with True x show ?thesis by (simp add: checkFunction_iff)
  next
    case False
    then show ?thesis using Cons.IH [of False] by simp
  qed
qed

text \<open>
  Claim C9, as amended. For every options value the constructor raises no error of its own:
  the property reads on the logger happen only once the logger is known to be an object.
  It throws exactly when a call into the logger code throws: \<^verbatim>\<open>getLogger\<close>, called with
  the name of the class when the options hold no object with all the log methods, or the
  \<^verbatim>\<open>child\<close> method of the logger in use; the error is then the one of that call. When
  these calls return, the constructor completes: the username is the one of the options when
  it is a string that is not empty and \<^verbatim>\<open>'SYSTEM'\<close> otherwise; the logger is the child
  of the logger of the options when that is valid and of the newly created default logger
  otherwise; region and credentials are those of the options when valid and \<^verbatim>\<open>undefined\<close>
  otherwise.
\<close>

theorem constructor_outcome:
  "Entity_constructor L C options =
     (let opts = Object_assign [] [options];
          l = obj_get opts ''logger'';
          u = obj_get opts ''username'';
          r = obj_get opts ''awsRegion'';
          c = obj_get opts ''awsCredentials''
      in case (if checkObject l \<and> (\<forall>m\<in>set LOG_METHODS. \<exists>f. get_prop l m = Inr (JFun f))
               then Inr l else getLogger L (className C) (JObj [])) of
           Inl e \<Rightarrow> Inl e
         | Inr logger \<Rightarrow>
             (case child L logger (JObj [(''entity'', JStr (tableName C))]) of
                Inl e \<Rightarrow> Inl e
              | Inr childLogger \<Rightarrow>
                  Inr \<lparr> cls = C,
                        this_logger = childLogger,
                        this_username = (if checkString u 1 then u else JStr ''SYSTEM''),
                        this_awsRegion = (if checkString r 1 then r else JUndefined),
                        this_awsCredentials = (if checkObject c then c else JUndefined) \<rparr>))"
proof -
  define l where "l = obj_get (Object_assign [] [options]) ''logger''"
  define valid where
    "valid = (checkObject l \<and> (\<forall>m\<in>set LOG_METHODS. \<exists>f. get_prop l m = Inr (JFun f)))"
  have red: "reduce_LOG_METHODS l LOG_METHODS (checkObject l) = Inr valid"
    by (simp add: reduce_LOG_METHODS_value valid_def)
  show ?thesis
    unfolding Entity_constructor_def Let_def l_def [symmetric] red valid_def [symmetric]
    by (cases valid) simp_all
qed

theorem constructor_witness:
  "Entity_constructor (namedLoggers ''Invalid group (arg #1)'') RangeKeyEntity JNull =
     Inr \<lparr> cls = RangeKeyEntity,
           this_logger = JObj [(''name'', JStr ''RangeKeyEntity'')],
           this_username = JStr ''SYSTEM'',
           this_awsRegion = JUndefined, this_awsCredentials = JUndefined \<rparr>
   \<and> Entity_constructor (namedLoggers ''Invalid group (arg #1)'') RangeKeyEntity
        (JObj [(''username'', JStr '' ''), (''logger'', JNum (Finite 3)),
               (''awsRegion'', JStr []), (''awsCredentials'', JArr [])]) =
     Inr \<lparr> cls = RangeKeyEntity,
           this_logger = JObj [(''name'', JStr ''RangeKeyEntity'')],
           this_username = JStr '' '',
           this_awsRegion = JUndefined, this_awsCredentials = JUndefined \<rparr>"
  using constructor_outcome [of "namedLoggers ''Invalid group (arg #1)''" RangeKeyEntity JNull]
    constructor_outcome [of "namedLoggers ''Invalid group (arg #1)''" RangeKeyEntity
      "JObj [(''username'', JStr '' ''), (''logger'', JNum (Finite 3)),
             (''awsRegion'', JStr []), (''awsCredentials'', JArr [])]"]
  by (simp add: Object_assign_def assign1_def obj_get_def namedLoggers_def RangeKeyEntity_def
        LOG_METHODS_def)

text \<open>
  The claim as stated fails: for a class without a name and options without a valid logger,
  \<^verbatim>\<open>getLogger\<close> is called with the empty name and throws, and so does the constructor.
\<close>

theorem constructor_nameless_class_counterexample:
  "Entity_constructor (namedLoggers ''Invalid group (arg #1)'')
     (RangeKeyEntity\<lparr>className := []\<rparr>) JUndefined
   = Inl (ArgError ''Invalid group (arg #1)'')"
  by (simp add: Entity_constructor_def Let_def Object_assign_def assign1_def obj_get_def
        namedLoggers_def RangeKeyEntity_def LOG_METHODS_def)

section \<open>Parameters and query execution\<close>

lemma initParams_Inr:
  assumes "Entity_initParams E keys operation audit rangeKeyOptional = Inr p"
  shows "checkObject keys"
    and "Entity_getHashKey E (own_props keys) = Inr (hashKey p)"
    and "Entity_getRangeKey E (own_props keys) rangeKeyOptional = Inr (rangeKey p)"
    and "username p = Entity_getUsername E audit"
  using assms
  by (auto simp: Entity_initParams_def checkAndThrow_def split: if_splits sum.splits)

lemma getRangeKey_undefined_iff:
  assumes "Entity_getRangeKey E ks False = Inr rk"
  shows "(rk = JUndefined) = (rangeKeyName (cls E) = None)"
  using assms
  by (auto simp: Entity_getRangeKey_def Let_def split: option.splits if_splits)

lemma rejection_get_prop: "truthy err \<Longrightarrow> \<exists>c. get_prop (rejection f err) k = Inr c"
  by (cases err rule: wrapAsOperationalError.cases)
     (simp_all add: rejection_def maybeWrapAsError_def new_Error_def)

lemma execQuery_sent: "sent (snd (Entity_execQuery store q w)) = sent w @ [q]"
  by (simp add: Entity_execQuery_def promisified_def Date_now_def Let_def split_beta
        split: sum.splits)

lemma execQuery_fst:
  "fst (Entity_execQuery store q w) =
     (if truthy (fst (fst (store q (db w))))
      then Inl (Raised (rejection (numberToString w) (fst (fst (store q (db w))))))
      else Inr (snd (fst (store q (db w)))))"
proof (cases "truthy (fst (fst (store q (db w))))")
  case True
  from rejection_get_prop [OF True] obtain c where
    "get_prop (rejection (numberToString w) (fst (fst (store q (db w))))) ''code'' = Inr c" ..
  with True show ?thesis
    by (simp add: Entity_execQuery_def promisified_def Date_now_def Let_def split_beta)
next
  case False
  then show ?thesis
    by (simp add: Entity_execQuery_def promisified_def Date_now_def Let_def split_beta)
qed

lemma initClient_clauses:
  "table (Entity_initClient E hk rk) = tableName (cls E)"
  "whereClauses (Entity_initClient E hk rk) =
     (if hk \<noteq> JUndefined then [(JStr (hashKeyName (cls E)), hk)] else []) @
     (if rk \<noteq> JUndefined then [(name_value (rangeKeyName (cls E)), rk)] else [])"
  "ifClauses (Entity_initClient E hk rk) = []"
  "havingClauses (Entity_initClient E hk rk) = []"
  "returnValues (Entity_initClient E hk rk) = None"
  "resumeToken (Entity_initClient E hk rk) = None"
  "limitCount (Entity_initClient E hk rk) = None"
  by (simp_all add: Entity_initClient_def where_eq_def Let_def)

lemma getHashKey_defined: "Entity_getHashKey E ks = Inr hk \<Longrightarrow> hk \<noteq> JUndefined"
  by (auto simp: Entity_getHashKey_def Let_def split: if_splits)

lemma getHashKey_value:
  "Entity_getHashKey E ks = Inr hk \<Longrightarrow> hk = obj_get ks (hashKeyName (cls E))"
  by (auto simp: Entity_getHashKey_def Let_def split: if_splits)

lemma getRangeKey_value:
  "Entity_getRangeKey E ks opt = Inr rk \<Longrightarrow> rangeKeyName (cls E) = Some rn
     \<Longrightarrow> rk = obj_get ks rn"
  by (auto simp: Entity_getRangeKey_def Let_def split: if_splits)

lemma testParams:
  "Entity_initParams rangeKeyEntity testKeys operation JUndefined False =
     Inr \<lparr> hashKey = JStr ''acme'', rangeKey = JStr ''e1'', username = JStr ''SYSTEM'' \<rparr>"
  by (simp add: Entity_initParams_def checkAndThrow_def testKeys_def Entity_getHashKey_def
        Entity_getRangeKey_def Entity_getUsername_def rangeKeyEntity_def RangeKeyEntity_def
        obj_get_def)

lemma testParams_opt:
  "Entity_initParams rangeKeyEntity testKeys operation JUndefined
     (\<not> truthy (name_value (rangeKeyName (cls rangeKeyEntity))))
   = Inr \<lparr> hashKey = JStr ''acme'', rangeKey = JStr ''e1'', username = JStr ''SYSTEM'' \<rparr>"
  using testParams [of operation] by (simp add: rangeKeyEntity_def RangeKeyEntity_def)

lemma testParams_list:
  "Entity_initParams rangeKeyEntity testKeys ''list'' JUndefined True
   = Inr \<lparr> hashKey = JStr ''acme'', rangeKey = JStr ''e1'', username = JStr ''SYSTEM'' \<rparr>"
  by (simp add: Entity_initParams_def checkAndThrow_def testKeys_def Entity_getHashKey_def
        Entity_getRangeKey_def Entity_getUsername_def rangeKeyEntity_def RangeKeyEntity_def
        obj_get_def)

section \<open>Update\<close>

lemma update_unfold:
  assumes "checkObject updateProps" "checkObject deleteProps" "checkString version 1"
    and "Entity_initParams E keys ''update'' audit
           (\<not> truthy (name_value (rangeKeyName (cls E)))) = Inr p"
    and "copyProps E updateProps deleteProps = Inr selected"
  shows "SimpleEntity_update store E keys updateProps deleteProps version audit w =
     (let client = client_return
                     (if_eq (if_eq (Entity_initClient E (hashKey p) (rangeKey p))
                               (JStr ''__status'') (JStr ''active''))
                        (JStr ''__version'') version) client_ALL_OLD;
          properties = obj_keys selected
      in if selected \<noteq> []
         then
           let payload = obj_set (obj_set (obj_set selected ''__version'' (JStr (ids w (made w))))
                             ''__updatedBy'' (username p))
                           ''__updateDate'' (timestamp (clock w (reads w)));
               res = Entity_execQuery store (client, Update payload)
                       (w\<lparr>made := Suc (made w), reads := Suc (reads w)\<rparr>)
           in (case fst res of
                 Inr results \<Rightarrow> Resolved (update_result keys properties version)
               | Inl error \<Rightarrow>
                   (case error_code error of
                      Inl t \<Rightarrow> Rejected t
                    | Inr code \<Rightarrow>
                        if code = JStr ''ConditionalCheckFailedException''
                        then Rejected ConcurrencyControlError
                        else Rejected error),
               snd res)
         else (Resolved (update_result keys properties version), w))"
  using assms initParams_Inr(1) [OF assms(4)]
  by (simp add: SimpleEntity_update_def checkAndThrow_def Let_def split_beta
        shortId_generate_def Date_now_def length_obj_keys obj_keys_Nil_iff split: sum.splits)

lemma update_copy_throws:
  assumes "checkObject updateProps" "checkObject deleteProps" "checkString version 1"
    and "Entity_initParams E keys ''update'' audit
           (\<not> truthy (name_value (rangeKeyName (cls E)))) = Inr p"
    and "copyProps E updateProps deleteProps = Inl e"
  shows "SimpleEntity_update store E keys updateProps deleteProps version audit w = (Thrown e, w)"
  using assms initParams_Inr(1) [OF assms(4)]
  by (simp add: SimpleEntity_update_def checkAndThrow_def Let_def)

lemma update_request_clauses:
  assumes "checkObject updateProps" and "checkObject deleteProps"
    and "checkString version 1"
    and "Entity_initParams E keys ''update'' audit
           (\<not> truthy (name_value (rangeKeyName (cls E)))) = Inr p"
    and "copyProps E updateProps deleteProps = Inr selected" and "selected \<noteq> []"
    and "rangeKeyName (cls E) \<noteq> Some []"
  shows "\<exists>c payload.
           sent (snd (SimpleEntity_update store E keys updateProps deleteProps version audit w))
             = sent w @ [(c, Update payload)]
         \<and> table c = tableName (cls E)
         \<and> whereClauses c =
             (JStr (hashKeyName (cls E)), obj_get (own_props keys) (hashKeyName (cls E))) #
             (case rangeKeyName (cls E) of
                None \<Rightarrow> []
              | Some rn \<Rightarrow> [(JStr rn, obj_get (own_props keys) rn)])
         \<and> ifClauses c = [(JStr ''__status'', JStr ''active''), (JStr ''__version'', version)]
         \<and> returnValues c = Some JUndefined"
proof -
  note ip = initParams_Inr [OF assms(4)]
  have hk: "hashKey p \<noteq> JUndefined" "hashKey p = obj_get (own_props keys) (hashKeyName (cls E))"
    using ip(2) by (rule getHashKey_defined, rule getHashKey_value)
  show ?thesis
  proof (cases "rangeKeyName (cls E)")
    case None
    with ip(3) have "rangeKey p = JUndefined"
      by (simp add: Entity_getRangeKey_def)
    with hk None assms(6) show ?thesis
      by (simp add: update_unfold [OF assms(1-5)] Let_def execQuery_sent initClient_clauses
            client_return_def if_eq_def client_ALL_OLD_def)
  next
    case (Some rn)
    with assms(7) have opt: "(\<not> truthy (name_value (rangeKeyName (cls E)))) = False"
      by simp
    from ip(3) have rk: "rangeKey p \<noteq> JUndefined" "rangeKey p = obj_get (own_props keys) rn"
      using Some getRangeKey_undefined_iff [of E "own_props keys" "rangeKey p"]
        getRangeKey_value [of E "own_props keys" _ "rangeKey p" rn]
      unfolding opt by simp_all
    with hk Some assms(6) show ?thesis
      by (simp add: update_unfold [OF assms(1-5)] Let_def execQuery_sent initClient_clauses
            client_return_def if_eq_def client_ALL_OLD_def)
  qed
qed

lemma copy_prop1:
  "copyProps rangeKeyEntity (JObj [(''prop1'', JStr ''x'')]) (JObj []) =
     Inr [(''prop1'', JStr ''x'')]"
  by (simp add: copyProps_def rangeKeyEntity_def RangeKeyEntity_def SelectiveCopy_def
        obj_get_def)

lemma copy_prop3:
  "copyProps rangeKeyEntity (JObj [(''prop1'', JStr ''x'')]) (JObj [(''prop3'', JNull)]) =
     Inl TypeError"
  by (simp add: copyProps_def rangeKeyEntity_def RangeKeyEntity_def SelectiveCopy_def
        obj_get_def client_del_def)

lemma copy_nothing:
  "copyProps rangeKeyEntity (JObj [(''zzz'', JStr ''x'')]) (JObj [(''prop1'', JNull)]) = Inr []"
  by (simp add: copyProps_def rangeKeyEntity_def RangeKeyEntity_def SelectiveCopy_def
        obj_get_def)

lemma checks_v1:
  "checkObject (JObj ps)" "checkString (JStr ''v1'') 1"
  by simp_all

text \<open>
  Claim C1, the code at the failing input. The update of \<^verbatim>\<open>prop1\<close> on the concrete entity
  sends one update request, filtered by equality on the hash key and on the range key and
  conditioned on \<^verbatim>\<open>__status\<close> being \<^verbatim>\<open>active\<close> and \<^verbatim>\<open>__version\<close> being the version passed
  in, as the claim says; but the value passed to \<^verbatim>\<open>return\<close> is \<^verbatim>\<open>undefined\<close>, the value of
  \<^verbatim>\<open>client.ALL_OLD\<close> on the request builder, and not \<^verbatim>\<open>ALL_OLD\<close>, so the prior image is
  not requested. When the delete policy selects a field, \<^verbatim>\<open>client.del()\<close> raises a
  TypeError and no request is sent at all.
\<close>

theorem update_return_values_undefined:
  "sent (snd (SimpleEntity_update acceptAll rangeKeyEntity testKeys
                (JObj [(''prop1'', JStr ''x'')]) (JObj []) (JStr ''v1'') JUndefined world0))
     = [(\<lparr> table = ''range_key_table'', region = JUndefined, credentials = JUndefined,
           whereClauses = [(JStr ''accountId'', JStr ''acme''),
                           (JStr ''entityId'', JStr ''e1'')],
           ifClauses = [(JStr ''__status'', JStr ''active''),
                        (JStr ''__version'', JStr ''v1'')],
           havingClauses = [], returnValues = Some JUndefined,
           resumeToken = None, limitCount = None \<rparr>,
         Update [(''prop1'', JStr ''x''), (''__version'', JStr (ids world0 0)),
                 (''__updatedBy'', JStr ''SYSTEM''),
                 (''__updateDate'', JNum (Finite 1000))])]
   \<and> SimpleEntity_update acceptAll rangeKeyEntity testKeys
        (JObj [(''prop1'', JStr ''x'')]) (JObj [(''prop3'', JNull)]) (JStr ''v1'')
        JUndefined world0
     = (Thrown TypeError, world0)"
proof
  show "sent (snd (SimpleEntity_update acceptAll rangeKeyEntity testKeys
                (JObj [(''prop1'', JStr ''x'')]) (JObj []) (JStr ''v1'') JUndefined world0))
     = [(\<lparr> table = ''range_key_table'', region = JUndefined, credentials = JUndefined,
           whereClauses = [(JStr ''accountId'', JStr ''acme''),
                           (JStr ''entityId'', JStr ''e1'')],
           ifClauses = [(JStr ''__status'', JStr ''active''),
                        (JStr ''__version'', JStr ''v1'')],
           havingClauses = [], returnValues = Some JUndefined,
           resumeToken = None, limitCount = None \<rparr>,
         Update [(''prop1'', JStr ''x''), (''__version'', JStr (ids world0 0)),
                 (''__updatedBy'', JStr ''SYSTEM''),
                 (''__updateDate'', JNum (Finite 1000))])]"
    unfolding update_unfold [OF checks_v1(1) checks_v1(1) checks_v1(2) testParams_opt copy_prop1]
    by (simp add: Let_def execQuery_sent world0_def Entity_initClient_def where_eq_def if_eq_def
          client_return_def client_ALL_OLD_def rangeKeyEntity_def RangeKeyEntity_def
          timestamp_def)
next
  show "SimpleEntity_update acceptAll rangeKeyEntity testKeys
        (JObj [(''prop1'', JStr ''x'')]) (JObj [(''prop3'', JNull)]) (JStr ''v1'')
        JUndefined world0
     = (Thrown TypeError, world0)"
    by (rule update_copy_throws [OF checks_v1(1) checks_v1(1) checks_v1(2) testParams_opt
          copy_prop3])
qed

text \<open>
  Claim C4. When the two policies together select no field, an update call with valid
  arguments sends nothing: the world, with the state of the store and the list of requests
  sent, is the one before the call, and the call resolves with the keys, an empty list of
  properties and the version passed in.
\<close>

theorem update_nothing_selected:
  assumes "checkObject updateProps" and "checkObject deleteProps"
    and "checkString version 1"
    and "Entity_initParams E keys ''update'' audit
           (\<not> truthy (name_value (rangeKeyName (cls E)))) = Inr p"
    and "copyProps E updateProps deleteProps = Inr selected"
    and "obj_keys selected = []"
  shows "SimpleEntity_update store E keys updateProps deleteProps version audit w =
           (Resolved (JObj [(''keys'', keys), (''properties'', JArr []),
                            (''__version'', version)]), w)"
  using assms(6)
  by (simp add: update_unfold [OF assms(1-5)] Let_def update_result_def obj_keys_Nil_iff)

theorem update_nothing_selected_witness:
  "SimpleEntity_update acceptAll rangeKeyEntity testKeys
     (JObj [(''zzz'', JStr ''x'')]) (JObj [(''prop1'', JNull)]) (JStr ''v1'') JUndefined world0
   = (Resolved (JObj [(''keys'', testKeys), (''properties'', JArr []),
                      (''__version'', JStr ''v1'')]), world0)"
proof -
  have sel: "obj_keys ([] :: jsobj) = []"
    by (simp add: obj_keys_Nil_iff)
  from update_nothing_selected [OF checks_v1(1) checks_v1(1) checks_v1(2) testParams_opt
      copy_nothing sel, of acceptAll world0]
  show ?thesis .
qed

lemma names_stamped:
  "fst ` set (obj_set (obj_set (obj_set ps a x) b y) c z) = fst ` set ps \<union> {a, b, c}"
  by (auto simp: names_obj_set)

text \<open>
  Claim C3. When at least one field is selected and the store accepts the update request
  (it calls back without an error), the call resolves, and the result holds the keys, the
  names of the selected fields (the fields written or removed by the request, that is, the
  fields of the payload apart from the three stamps) and, as \<^verbatim>\<open>__version\<close>, the version
  passed in by the caller. The new version identifier is stamped on the payload of the
  request only.
\<close>

theorem update_resolves_with_input_version:
  assumes "checkObject updateProps" and "checkObject deleteProps"
    and "checkString version 1"
    and "Entity_initParams E keys ''update'' audit
           (\<not> truthy (name_value (rangeKeyName (cls E)))) = Inr p"
    and "copyProps E updateProps deleteProps = Inr selected"
    and "obj_keys selected \<noteq> []"
    and "\<not> truthy (fst (fst (store
             (last (sent (snd (SimpleEntity_update store E keys updateProps deleteProps
                                 version audit w))))
             (db w))))"
  shows "fst (SimpleEntity_update store E keys updateProps deleteProps version audit w) =
           Resolved (JObj [(''keys'', keys),
                           (''properties'', JArr (map JStr (obj_keys selected))),
                           (''__version'', version)])
         \<and> (\<exists>c payload.
               sent (snd (SimpleEntity_update store E keys updateProps deleteProps version
                            audit w)) = sent w @ [(c, Update payload)]
               \<and> obj_get payload ''__version'' = JStr (ids w (made w))
               \<and> set (obj_keys payload) =
                   set (obj_keys selected)
                   \<union> {''__version'', ''__updatedBy'', ''__updateDate''})"
proof -
  from assms(6) have ne: "selected \<noteq> []" by (simp add: obj_keys_Nil_iff)
  note u = update_unfold [OF assms(1-5)]
  from assms(7) ne show ?thesis
    unfolding u Let_def
    by (simp add: update_result_def execQuery_sent execQuery_fst obj_get_obj_set
          set_obj_keys names_stamped)
qed

theorem update_resolves_witness:
  "fst (SimpleEntity_update acceptAll rangeKeyEntity testKeys
          (JObj [(''prop1'', JStr ''x'')]) (JObj []) (JStr ''v1'') JUndefined world0)
   = Resolved (JObj [(''keys'', testKeys),
                     (''properties'', JArr [JStr ''prop1'']),
                     (''__version'', JStr ''v1'')])"
proof -
  have keys: "obj_keys [(''prop1'', JStr ''x'')] = [''prop1'']"
    by (simp add: obj_keys_def is_array_index_def is_digit_def)
  then have sel: "obj_keys [(''prop1'', JStr ''x'')] \<noteq> []" by simp
  have ok: "\<not> truthy (fst (fst (acceptAll
             (last (sent (snd (SimpleEntity_update acceptAll rangeKeyEntity testKeys
                 (JObj [(''prop1'', JStr ''x'')]) (JObj []) (JStr ''v1'') JUndefined world0))))
             (db world0))))"
    by (simp add: acceptAll_def)
  from update_resolves_with_input_version [where store = acceptAll and w = world0,
      OF checks_v1(1) checks_v1(1) checks_v1(2) testParams_opt copy_prop1 sel ok]
  show ?thesis by (simp add: keys)
qed

section \<open>Create\<close>

lemma create_unfold:
  assumes "checkObject props"
    and "Entity_initParams E keys ''create'' audit
           (\<not> truthy (name_value (rangeKeyName (cls E)))) = Inr p"
  shows "SimpleEntity_create store E keys props audit w =
     (let payload = Object_assign [] [props, keys,
                      JObj [(''__status'', JStr ''active''),
                            (''__version'', JStr (ids w (made w))),
                            (''__createdBy'', username p),
                            (''__createDate'', timestamp (clock w (reads w))),
                            (''__updatedBy'', username p),
                            (''__updateDate'', timestamp (clock w (Suc (reads w))))]];
          res = Entity_execQuery store (Entity_initClient E JUndefined JUndefined, Insert payload)
                  (w\<lparr>made := Suc (made w), reads := Suc (Suc (reads w))\<rparr>)
      in (case fst res of
            Inr results \<Rightarrow> Resolved results
          | Inl error \<Rightarrow>
              (case error_code error of
                 Inl t \<Rightarrow> Rejected t
               | Inr code \<Rightarrow>
                   if code = JStr ''ConditionalCheckFailedException''
                   then Rejected DuplicateRecordError
                   else Rejected error),
          snd res))"
  using assms
  by (simp add: SimpleEntity_create_def checkAndThrow_def Let_def split_beta
        shortId_generate_def Date_now_def split: sum.splits)

lemma Object_assign3:
  "Object_assign [] [a, b, JObj m] =
     assign1 (assign1 (assign1 [] (own_props a)) (own_props b)) m"
  by (simp add: Object_assign_def)

lemma Object_assign2:
  "Object_assign [] [a, b] = assign1 (assign1 [] (own_props a)) (own_props b)"
  by (simp add: Object_assign_def)

lemma payload_get:
  "obj_get (Object_assign [] [props, keys,
              JObj [(''__status'', st), (''__version'', ve), (''__createdBy'', cb),
                    (''__createDate'', cd), (''__updatedBy'', ub), (''__updateDate'', ud)]]) k =
     (if k = ''__status'' then st
      else if k = ''__version'' then ve
      else if k = ''__createdBy'' then cb
      else if k = ''__createDate'' then cd
      else if k = ''__updatedBy'' then ub
      else if k = ''__updateDate'' then ud
      else obj_get (Object_assign [] [props, keys]) k)"
  unfolding Object_assign3 Object_assign2
  by (subst obj_get_assign1_distinct) (simp_all add: obj_get_Cons)

lemma payload_keys:
  "set (obj_keys (Object_assign [] [props, keys,
              JObj [(''__status'', st), (''__version'', ve), (''__createdBy'', cb),
                    (''__createDate'', cd), (''__updatedBy'', ub), (''__updateDate'', ud)]])) =
     set (obj_keys (own_props props)) \<union> set (obj_keys (own_props keys)) \<union>
     {''__status'', ''__version'', ''__createdBy'', ''__createDate'', ''__updatedBy'',
      ''__updateDate''}"
  unfolding Object_assign3
  by (simp add: set_obj_keys names_assign1)

text \<open>
  Claim C5, as amended. A create call with valid keys and props sends exactly one request, an
  insert on the unfiltered client. Its payload is the merge of props and keys overwritten
  with exactly six reserved fields: \<^verbatim>\<open>__status\<close> is \<^verbatim>\<open>active\<close>, \<^verbatim>\<open>__version\<close> is the
  newly generated identifier, \<^verbatim>\<open>__createdBy\<close> and \<^verbatim>\<open>__updatedBy\<close> are both the resolved
  username, \<^verbatim>\<open>__createDate\<close> is the first reading of the clock during the call and
  \<^verbatim>\<open>__updateDate\<close> is the next reading.
\<close>

theorem create_payload:
  assumes "checkObject props"
    and "Entity_initParams E keys ''create'' audit
           (\<not> truthy (name_value (rangeKeyName (cls E)))) = Inr p"
  shows "\<exists>payload.
           sent (snd (SimpleEntity_create store E keys props audit w))
             = sent w @ [(Entity_initClient E JUndefined JUndefined, Insert payload)]
         \<and> obj_get payload ''__status'' = JStr ''active''
         \<and> obj_get payload ''__version'' = JStr (ids w (made w))
         \<and> obj_get payload ''__createdBy'' = Entity_getUsername E audit
         \<and> obj_get payload ''__updatedBy'' = Entity_getUsername E audit
         \<and> obj_get payload ''__createDate'' = timestamp (clock w (reads w))
         \<and> obj_get payload ''__updateDate'' = timestamp (clock w (Suc (reads w)))
         \<and> (\<forall>k. k \<notin> {''__status'', ''__version'', ''__createdBy'', ''__createDate'',
                       ''__updatedBy'', ''__updateDate''}
                \<longrightarrow> obj_get payload k = obj_get (Object_assign [] [props, keys]) k)
         \<and> set (obj_keys payload) =
             set (obj_keys (own_props props)) \<union> set (obj_keys (own_props keys)) \<union>
             {''__status'', ''__version'', ''__createdBy'', ''__createDate'', ''__updatedBy'',
              ''__updateDate''}"
  unfolding create_unfold [OF assms] Let_def
  by (simp add: execQuery_sent payload_get payload_keys initParams_Inr(4) [OF assms(2)])

lemma testParams_create:
  "Entity_initParams rangeKeyEntity testKeys ''create'' JUndefined
     (\<not> truthy (name_value (rangeKeyName (cls rangeKeyEntity))))
   = Inr \<lparr> hashKey = JStr ''acme'', rangeKey = JStr ''e1'', username = JStr ''SYSTEM'' \<rparr>"
  by (rule testParams_opt)

theorem create_payload_witness:
  "\<exists>payload.
     sent (snd (SimpleEntity_create acceptAll rangeKeyEntity testKeys
                  (JObj [(''tag'', JStr ''x'')]) JUndefined world0))
       = [(Entity_initClient rangeKeyEntity JUndefined JUndefined, Insert payload)]
     \<and> obj_get payload ''__status'' = JStr ''active''
     \<and> obj_get payload ''__createdBy'' = JStr ''SYSTEM''
     \<and> obj_get payload ''__createDate'' = timestamp 1000
     \<and> obj_get payload ''__updateDate'' = timestamp 1001
     \<and> obj_get payload ''tag'' = JStr ''x''"
proof -
  have chk: "checkObject (JObj [(''tag'', JStr ''x'')])" by simp
  from create_payload [OF chk testParams_create, of acceptAll world0]
  obtain payload where
    s: "sent (snd (SimpleEntity_create acceptAll rangeKeyEntity testKeys
                  (JObj [(''tag'', JStr ''x'')]) JUndefined world0))
          = sent world0 @ [(Entity_initClient rangeKeyEntity JUndefined JUndefined,
                            Insert payload)]"
    and st: "obj_get payload ''__status'' = JStr ''active''"
    and cb: "obj_get payload ''__createdBy'' = Entity_getUsername rangeKeyEntity JUndefined"
    and cd: "obj_get payload ''__createDate'' = timestamp (clock world0 (reads world0))"
    and ud: "obj_get payload ''__updateDate'' = timestamp (clock world0 (Suc (reads world0)))"
    and other: "\<forall>k. k \<notin> {''__status'', ''__version'', ''__createdBy'', ''__createDate'',
                       ''__updatedBy'', ''__updateDate''}
                \<longrightarrow> obj_get payload k
                      = obj_get (Object_assign [] [JObj [(''tag'', JStr ''x'')], testKeys]) k"
    by blast
  have tag: "obj_get payload ''tag'' = JStr ''x''"
    using other [rule_format, of "''tag''"]
    by (simp add: Object_assign2 assign1_def testKeys_def obj_get_def)
  from s st cb cd ud tag show ?thesis
    by (intro exI [of _ payload])
       (simp add: world0_def Entity_getUsername_def rangeKeyEntity_def)
qed

text \<open>
  The claim as stated fails where it says that the two dates are equal: they are two
  readings of the clock, and the clock may advance between them.
\<close>

theorem create_dates_counterexample:
  "sent (snd (SimpleEntity_create acceptAll rangeKeyEntity testKeys
                (JObj [(''tag'', JStr ''x'')]) JUndefined world0))
     = [(Entity_initClient rangeKeyEntity JUndefined JUndefined,
         Insert [(''tag'', JStr ''x''), (''accountId'', JStr ''acme''),
                 (''entityId'', JStr ''e1''), (''__status'', JStr ''active''),
                 (''__version'', JStr (ids world0 0)), (''__createdBy'', JStr ''SYSTEM''),
                 (''__createDate'', JNum (Finite 1000)), (''__updatedBy'', JStr ''SYSTEM''),
                 (''__updateDate'', JNum (Finite 1001))])]
   \<and> JNum (Finite 1000) \<noteq> JNum (Finite 1001)"
  unfolding create_unfold [OF checkObject.simps(1) [THEN iffD2, OF TrueI] testParams_create]
  by (simp add: Let_def execQuery_sent world0_def Object_assign3 assign1_def testKeys_def
        timestamp_def)

text \<open>
  Claim C10. In the payload of the insert request, for objects with distinct property names,
  a reserved field holds the generated value whatever props and keys say, any other field
  that keys defines holds the value from keys, and the remaining fields hold the value from
  props.
\<close>

theorem create_precedence:
  assumes "checkObject props"
    and "Entity_initParams E keys ''create'' audit
           (\<not> truthy (name_value (rangeKeyName (cls E)))) = Inr p"
    and "distinct (obj_keys (own_props keys))" and "distinct (obj_keys (own_props props))"
  shows "\<exists>payload.
           sent (snd (SimpleEntity_create store E keys props audit w))
             = sent w @ [(Entity_initClient E JUndefined JUndefined, Insert payload)]
         \<and> (\<forall>k. obj_get payload k =
                  (if k = ''__status'' then JStr ''active''
                   else if k = ''__version'' then JStr (ids w (made w))
                   else if k = ''__createdBy'' then username p
                   else if k = ''__createDate'' then timestamp (clock w (reads w))
                   else if k = ''__updatedBy'' then username p
                   else if k = ''__updateDate'' then timestamp (clock w (Suc (reads w)))
                   else if k \<in> set (obj_keys (own_props keys)) then obj_get (own_props keys) k
                   else obj_get (own_props props) k))"
proof -
  from assms(3,4) have d: "distinct (map fst (own_props keys))"
    "distinct (map fst (own_props props))"
    by (simp_all add: distinct_obj_keys)
  show ?thesis
    unfolding create_unfold [OF assms(1,2)] Let_def
    by (simp add: execQuery_sent payload_get Object_assign2 obj_get_assign1_distinct d
          obj_get_undefined obj_get_Nil set_obj_keys)
qed

theorem create_precedence_witness:
  "\<exists>payload.
     sent (snd (SimpleEntity_create acceptAll rangeKeyEntity testKeys
                  (JObj [(''accountId'', JStr ''other''), (''__status'', JStr ''deleted''),
                         (''tag'', JStr ''x'')]) JUndefined world0))
       = [(Entity_initClient rangeKeyEntity JUndefined JUndefined, Insert payload)]
     \<and> obj_get payload ''accountId'' = JStr ''acme''
     \<and> obj_get payload ''__status'' = JStr ''active''
     \<and> obj_get payload ''tag'' = JStr ''x''"
proof -
  have chk: "checkObject (JObj [(''accountId'', JStr ''other''),
               (''__status'', JStr ''deleted''), (''tag'', JStr ''x'')])" by simp
  have d: "distinct (obj_keys (own_props testKeys))"
    "distinct (obj_keys (own_props (JObj [(''accountId'', JStr ''other''),
               (''__status'', JStr ''deleted''), (''tag'', JStr ''x'')])))"
    by (simp_all add: testKeys_def distinct_obj_keys)
  from create_precedence [OF chk testParams_create d, of acceptAll world0]
  obtain payload where
    s: "sent (snd (SimpleEntity_create acceptAll rangeKeyEntity testKeys
                  (JObj [(''accountId'', JStr ''other''), (''__status'', JStr ''deleted''),
                         (''tag'', JStr ''x'')]) JUndefined world0))
          = sent world0 @ [(Entity_initClient rangeKeyEntity JUndefined JUndefined,
                            Insert payload)]"
    and g: "\<And>k. obj_get payload k =
                  (if k = ''__status'' then JStr ''active''
                   else if k = ''__version'' then JStr (ids world0 (made world0))
                   else if k = ''__createdBy'' then JStr ''SYSTEM''
                   else if k = ''__createDate'' then timestamp (clock world0 (reads world0))
                   else if k = ''__updatedBy'' then JStr ''SYSTEM''
                   else if k = ''__updateDate''
                     then timestamp (clock world0 (Suc (reads world0)))
                   else if k \<in> set (obj_keys (own_props testKeys))
                     then obj_get (own_props testKeys) k
                   else obj_get (own_props (JObj [(''accountId'', JStr ''other''),
                          (''__status'', JStr ''deleted''), (''tag'', JStr ''x'')])) k)"
    by auto
  have "obj_get payload ''accountId'' = JStr ''acme''"
    "obj_get payload ''__status'' = JStr ''active''"
    "obj_get payload ''tag'' = JStr ''x''"
    unfolding g by (simp_all add: testKeys_def set_obj_keys obj_get_def)
  with s show ?thesis
    by (intro exI [of _ payload]) (simp add: world0_def)
qed

section \<open>List\<close>

lemma list_unfold:
  assumes "Entity_initParams E keys ''list'' audit True = Inr p"
  shows "SimpleEntity_list store converter E keys count audit w =
     (let client = having_eq (Entity_initClient E (hashKey p) JUndefined)
                     (JStr ''__status'') (JStr ''active'');
          client =
            (if rangeKey p \<noteq> JUndefined
             then client_resume client
                    (converter
                       (obj_set (obj_set [] (hashKeyName (cls E)) (hashKey p))
                          (property_key (rangeKeyName (cls E))) (rangeKey p)))
             else client);
          client = (if checkNumber count then client_limit client count else client);
          res = Entity_execQuery store (client, Query) w
      in (case fst res of Inr results \<Rightarrow> Resolved results | Inl error \<Rightarrow> Rejected error,
          snd res))"
  using assms initParams_Inr(1) [OF assms]
  by (simp add: SimpleEntity_list_def checkAndThrow_def Let_def split_beta split: sum.splits)

text \<open>
  Claim C8. On an entity that declares a range-key field, a list call that passes validation
  sends one query. When the keys hold a defined value under the range-key field, the query
  carries as resume cursor the store's encoding of the object with the hash key under the
  hash-key field and the range key under the range-key field; when the value is
  \<^verbatim>\<open>undefined\<close> or absent, the query carries no resume cursor.
\<close>

theorem list_resume_token:
  assumes "rangeKeyName (cls E) = Some rn"
    and "Entity_initParams E keys ''list'' audit True = Inr p"
  shows "\<exists>c. sent (snd (SimpleEntity_list store converter E keys count audit w))
               = sent w @ [(c, Query)]
             \<and> resumeToken c =
                 (let hn = hashKeyName (cls E);
                      hk = obj_get (own_props keys) hn;
                      rk = obj_get (own_props keys) rn
                  in if rk \<noteq> JUndefined
                     then Some (converter
                                  (if hn = rn then [(rn, rk)] else [(hn, hk), (rn, rk)]))
                     else None)"
proof -
  note ip = initParams_Inr [OF assms(2)]
  have hk: "hashKey p = obj_get (own_props keys) (hashKeyName (cls E))"
    using ip(2) by (rule getHashKey_value)
  have rk: "rangeKey p = obj_get (own_props keys) rn"
    using ip(3) assms(1) by (rule getRangeKey_value)
  show ?thesis
    unfolding list_unfold [OF assms(2)] Let_def
    by (simp add: execQuery_sent assms(1) hk [symmetric] rk [symmetric] client_resume_def
          client_limit_def having_eq_def initClient_clauses)
qed

theorem list_resume_token_witness:
  "(\<exists>c. sent (snd (SimpleEntity_list acceptAll JObj rangeKeyEntity testKeys JUndefined
                      JUndefined world0)) = [(c, Query)]
        \<and> resumeToken c =
            Some (JObj [(''accountId'', JStr ''acme''), (''entityId'', JStr ''e1'')]))
   \<and> (\<exists>c. sent (snd (SimpleEntity_list acceptAll JObj rangeKeyEntity
                        (JObj [(''accountId'', JStr ''acme'')]) JUndefined
                        JUndefined world0)) = [(c, Query)]
        \<and> resumeToken c = None)"
proof -
  have rn: "rangeKeyName (cls rangeKeyEntity) = Some ''entityId''"
    by (simp add: rangeKeyEntity_def RangeKeyEntity_def)
  have p1: "Entity_initParams rangeKeyEntity testKeys ''list'' JUndefined True =
              Inr \<lparr> hashKey = JStr ''acme'', rangeKey = JStr ''e1'',
                     username = JStr ''SYSTEM'' \<rparr>"
    by (simp add: Entity_initParams_def checkAndThrow_def testKeys_def Entity_getHashKey_def
          Entity_getRangeKey_def Entity_getUsername_def rangeKeyEntity_def RangeKeyEntity_def
          obj_get_def)
  have p2: "Entity_initParams rangeKeyEntity (JObj [(''accountId'', JStr ''acme'')]) ''list''
              JUndefined True =
              Inr \<lparr> hashKey = JStr ''acme'', rangeKey = JUndefined,
                     username = JStr ''SYSTEM'' \<rparr>"
    by (simp add: Entity_initParams_def checkAndThrow_def Entity_getHashKey_def
          Entity_getRangeKey_def Entity_getUsername_def rangeKeyEntity_def RangeKeyEntity_def
          obj_get_def)
  from list_resume_token [OF rn p1, of acceptAll JObj JUndefined world0]
  have a: "\<exists>c. sent (snd (SimpleEntity_list acceptAll JObj rangeKeyEntity testKeys JUndefined
                      JUndefined world0)) = [(c, Query)]
        \<and> resumeToken c =
            Some (JObj [(''accountId'', JStr ''acme''), (''entityId'', JStr ''e1'')])"
    by (simp add: world0_def rangeKeyEntity_def RangeKeyEntity_def testKeys_def obj_get_def)
  from list_resume_token [OF rn p2, of acceptAll JObj JUndefined world0]
  have b: "\<exists>c. sent (snd (SimpleEntity_list acceptAll JObj rangeKeyEntity
                        (JObj [(''accountId'', JStr ''acme'')]) JUndefined
                        JUndefined world0)) = [(c, Query)]
        \<and> resumeToken c = None"
    by (simp add: world0_def rangeKeyEntity_def RangeKeyEntity_def obj_get_def)
  from a b show ?thesis by (rule conjI)
qed

section \<open>Errors of the store\<close>

lemma lookup_unfold:
  assumes "Entity_initParams E keys ''lookup'' audit
             (\<not> truthy (name_value (rangeKeyName (cls E)))) = Inr p"
  shows "SimpleEntity_lookup store E keys audit w =
     (let client = if_eq (Entity_initClient E (hashKey p) (rangeKey p))
                     (JStr ''__status'') (JStr ''active'');
          res = Entity_execQuery store (client, Get) w
      in (case fst res of Inr results \<Rightarrow> Resolved results | Inl error \<Rightarrow> Rejected error,
          snd res))"
  using assms initParams_Inr(1) [OF assms]
  by (simp add: SimpleEntity_lookup_def checkAndThrow_def Let_def split_beta split: sum.splits)

lemma delete_unfold:
  assumes "checkString version 1"
    and "Entity_initParams E keys ''delete'' audit
           (\<not> truthy (name_value (rangeKeyName (cls E)))) = Inr p"
  shows "SimpleEntity_delete store E keys version audit w =
     (let client = if_eq (if_eq (Entity_initClient E (hashKey p) (rangeKey p))
                            (JStr ''__status'') (JStr ''active''))
                     (JStr ''__version'') version;
          res = Entity_execQuery store (client, Delete) w
      in (case fst res of
            Inr results \<Rightarrow> Resolved results
          | Inl error \<Rightarrow>
              (case error_code error of
                 Inl t \<Rightarrow> Rejected t
               | Inr code \<Rightarrow>
                   if code = JStr ''ConditionalCheckFailedException''
                   then Rejected ConcurrencyControlError
                   else Rejected error),
          snd res))"
  using assms initParams_Inr(1) [OF assms(2)]
  by (simp add: SimpleEntity_delete_def checkAndThrow_def Let_def split_beta split: sum.splits)

text \<open>A call that sent a request had passed its validation.\<close>

lemma create_sent_valid:
  assumes "sent (snd (SimpleEntity_create store E keys props audit w)) \<noteq> sent w"
  shows "checkObject props \<and>
         (\<exists>p. Entity_initParams E keys ''create'' audit
                 (\<not> truthy (name_value (rangeKeyName (cls E)))) = Inr p)"
  using assms
  by (auto simp: SimpleEntity_create_def checkAndThrow_def Let_def split: sum.splits if_splits)

lemma lookup_sent_valid:
  assumes "sent (snd (SimpleEntity_lookup store E keys audit w)) \<noteq> sent w"
  shows "\<exists>p. Entity_initParams E keys ''lookup'' audit
                (\<not> truthy (name_value (rangeKeyName (cls E)))) = Inr p"
  using assms
  by (auto simp: SimpleEntity_lookup_def checkAndThrow_def Let_def split: sum.splits if_splits)

lemma list_sent_valid:
  assumes "sent (snd (SimpleEntity_list store converter E keys count audit w)) \<noteq> sent w"
  shows "\<exists>p. Entity_initParams E keys ''list'' audit True = Inr p"
  using assms
  by (auto simp: SimpleEntity_list_def checkAndThrow_def Let_def split: sum.splits if_splits)

lemma delete_sent_valid:
  assumes "sent (snd (SimpleEntity_delete store E keys version audit w)) \<noteq> sent w"
  shows "checkString version 1 \<and>
         (\<exists>p. Entity_initParams E keys ''delete'' audit
                 (\<not> truthy (name_value (rangeKeyName (cls E)))) = Inr p)"
  using assms
  by (auto simp: SimpleEntity_delete_def checkAndThrow_def Let_def split: sum.splits if_splits)

lemma update_sent_valid:
  assumes "sent (snd (SimpleEntity_update store E keys updateProps deleteProps version audit w))
             \<noteq> sent w"
  shows "checkObject updateProps \<and> checkObject deleteProps \<and> checkString version 1 \<and>
         (\<exists>p. Entity_initParams E keys ''update'' audit
                 (\<not> truthy (name_value (rangeKeyName (cls E)))) = Inr p) \<and>
         (\<exists>selected. copyProps E updateProps deleteProps = Inr selected \<and> selected \<noteq> [])"
  using assms
  by (auto simp: SimpleEntity_update_def checkAndThrow_def Let_def length_obj_keys
        obj_keys_Nil_iff split: sum.splits if_splits)

lemma create_sends:
  assumes "checkObject props"
    and "Entity_initParams E keys ''create'' audit
           (\<not> truthy (name_value (rangeKeyName (cls E)))) = Inr p"
  shows "sent (snd (SimpleEntity_create store E keys props audit w)) \<noteq> sent w"
  unfolding create_unfold [OF assms] Let_def by (simp add: execQuery_sent)

lemma update_sends:
  assumes "checkObject updateProps" "checkObject deleteProps" "checkString version 1"
    and "Entity_initParams E keys ''update'' audit
           (\<not> truthy (name_value (rangeKeyName (cls E)))) = Inr p"
    and "copyProps E updateProps deleteProps = Inr selected" and "selected \<noteq> []"
  shows "sent (snd (SimpleEntity_update store E keys updateProps deleteProps version audit w))
           \<noteq> sent w"
  unfolding update_unfold [OF assms(1-5)] Let_def by (simp add: execQuery_sent assms(6))

lemma delete_sends:
  assumes "checkString version 1"
    and "Entity_initParams E keys ''delete'' audit
           (\<not> truthy (name_value (rangeKeyName (cls E)))) = Inr p"
  shows "sent (snd (SimpleEntity_delete store E keys version audit w)) \<noteq> sent w"
  unfolding delete_unfold [OF assms] Let_def by (simp add: execQuery_sent)

lemma lookup_sends:
  assumes "Entity_initParams E keys ''lookup'' audit
             (\<not> truthy (name_value (rangeKeyName (cls E)))) = Inr p"
  shows "sent (snd (SimpleEntity_lookup store E keys audit w)) \<noteq> sent w"
  unfolding lookup_unfold [OF assms] Let_def by (simp add: execQuery_sent)

lemma list_sends:
  assumes "Entity_initParams E keys ''list'' audit True = Inr p"
  shows "sent (snd (SimpleEntity_list store converter E keys count audit w)) \<noteq> sent w"
  unfolding list_unfold [OF assms] Let_def by (simp add: execQuery_sent)


subsection \<open>The value of the rejection\<close>

lemma rejection_object:
  "\<not> isPrimitive err \<Longrightarrow> \<not> isUntypedError err \<Longrightarrow> rejection f err = err"
  by (cases err rule: wrapAsOperationalError.cases)
     (simp_all add: rejection_def maybeWrapAsError_def)

lemma rejection_rebuilt:
  "isPrimitive err \<or> isUntypedError err \<Longrightarrow>
   \<exists>hidden enumerable. rejection f err = JErr OperationalError hidden enumerable"
  by (cases err rule: wrapAsOperationalError.cases)
     (simp_all add: rejection_def maybeWrapAsError_def new_Error_def)

lemma rejection_differs:
  assumes "isPrimitive err \<or> isUntypedError err"
  shows "rejection f err \<noteq> err"
proof -
  from rejection_rebuilt [OF assms] obtain h e where
    r: "rejection f err = JErr OperationalError h e" by blast
  from assms have "err \<noteq> JErr OperationalError h e" by auto
  with r show ?thesis by simp
qed

lemma map_of_filter_key:
  "map_of (filter (\<lambda>(key, v). Q key) ps) k = (if Q k then map_of ps k else None)"
  by (induction ps) auto

lemma obj_get_filter_key:
  "Q k \<Longrightarrow> obj_get (filter (\<lambda>(key, v). Q key) ps) k = obj_get ps k"
  by (simp add: obj_get_def map_of_filter_key)

lemma names_filter_key:
  "Q k \<Longrightarrow> (k \<in> fst ` set (filter (\<lambda>(key, v). Q key) ps)) = (k \<in> fst ` set ps)"
  by (induction ps) auto

lemma rejection_code_plain:
  assumes "distinct (map fst enumerable)"
  shows "get_prop (rejection f (JErr PlainError hidden enumerable)) ''code''
           = Inr (obj_get enumerable ''code'')"
proof -
  let ?kept = "filter (\<lambda>(key, v). \<not> rErrorKey key) enumerable"
  let ?base = "[(''cause'', JErr PlainError hidden enumerable), (''isOperational'', JBool True)]"
  have d: "distinct (map fst ?kept)"
    using assms by (rule distinct_map_filter)
  have q: "\<not> rErrorKey ''code''" by (simp add: rErrorKey_def)
  have mem: "(''code'' \<in> fst ` set ?kept) = (''code'' \<in> fst ` set enumerable)"
    using q by (rule names_filter_key [where Q = "\<lambda>key. \<not> rErrorKey key"])
  have get: "obj_get ?kept ''code'' = obj_get enumerable ''code''"
    using q by (rule obj_get_filter_key [where Q = "\<lambda>key. \<not> rErrorKey key"])
  have base: "obj_get ?base ''code'' = JUndefined"
    by (simp add: obj_get_def)
  have "obj_get (assign1 ?base ?kept) ''code'' =
          (if ''code'' \<in> fst ` set ?kept then obj_get ?kept ''code''
           else obj_get ?base ''code'')"
    by (rule obj_get_assign1_distinct [OF d])
  also have "\<dots> = obj_get enumerable ''code''"
    unfolding mem get base by (simp add: obj_get_undefined)
  finally have a: "obj_get (assign1 ?base ?kept) ''code'' = obj_get enumerable ''code''" .
  have "get_prop (rejection f (JErr PlainError hidden enumerable)) ''code''
          = Inr (obj_get (assign1 ?base ?kept) ''code'')"
    by (simp add: rejection_def maybeWrapAsError_def err_get_def obj_get_def
          split: option.splits)
  with a show ?thesis by simp
qed

lemma rejection_code_primitive:
  "isPrimitive err \<Longrightarrow> get_prop (rejection f err) ''code'' = Inr JUndefined"
  by (cases err rule: wrapAsOperationalError.cases)
     (simp_all add: rejection_def maybeWrapAsError_def new_Error_def err_get_def assign1_def)

subsection \<open>The outcome of the operations\<close>

lemma create_store_error:
  assumes "truthy err"
    and "sent (snd (SimpleEntity_create store E keys props audit w)) \<noteq> sent w"
    and "fst (fst (store (last (sent (snd (SimpleEntity_create store E keys props audit w))))
                     (db w))) = err"
  shows "fst (SimpleEntity_create store E keys props audit w) =
           Rejected (if get_prop (rejection (numberToString w) err) ''code''
                          = Inr (JStr ''ConditionalCheckFailedException'')
                     then DuplicateRecordError
                     else Raised (rejection (numberToString w) err))"
proof -
  from create_sent_valid [OF assms(2)] obtain p where
    v: "checkObject props"
       "Entity_initParams E keys ''create'' audit
          (\<not> truthy (name_value (rangeKeyName (cls E)))) = Inr p"
    by blast
  from rejection_get_prop [OF assms(1)] obtain c where
    c: "get_prop (rejection (numberToString w) err) ''code'' = Inr c" ..
  from assms(1,3) show ?thesis
    unfolding create_unfold [OF v] Let_def
    by (simp add: execQuery_sent execQuery_fst c)
qed

lemma update_store_error:
  assumes "truthy err"
    and "sent (snd (SimpleEntity_update store E keys updateProps deleteProps version audit w))
           \<noteq> sent w"
    and "fst (fst (store (last (sent (snd (SimpleEntity_update store E keys updateProps
                                             deleteProps version audit w))))
                     (db w))) = err"
  shows "fst (SimpleEntity_update store E keys updateProps deleteProps version audit w) =
           Rejected (if get_prop (rejection (numberToString w) err) ''code''
                          = Inr (JStr ''ConditionalCheckFailedException'')
                     then ConcurrencyControlError
                     else Raised (rejection (numberToString w) err))"
proof -
  from update_sent_valid [OF assms(2)] obtain p selected where
    v: "checkObject updateProps" "checkObject deleteProps" "checkString version 1"
       "Entity_initParams E keys ''update'' audit
          (\<not> truthy (name_value (rangeKeyName (cls E)))) = Inr p"
       "copyProps E updateProps deleteProps = Inr selected"
    and sel: "selected \<noteq> []"
    by blast
  from rejection_get_prop [OF assms(1)] obtain c where
    c: "get_prop (rejection (numberToString w) err) ''code'' = Inr c" ..
  from assms(1,3) show ?thesis
    unfolding update_unfold [OF v] Let_def
    by (simp add: execQuery_sent execQuery_fst c sel)
qed

lemma delete_store_error:
  assumes "truthy err"
    and "sent (snd (SimpleEntity_delete store E keys version audit w)) \<noteq> sent w"
    and "fst (fst (store (last (sent (snd (SimpleEntity_delete store E keys version audit w))))
                     (db w))) = err"
  shows "fst (SimpleEntity_delete store E keys version audit w) =
           Rejected (if get_prop (rejection (numberToString w) err) ''code''
                          = Inr (JStr ''ConditionalCheckFailedException'')
                     then ConcurrencyControlError
                     else Raised (rejection (numberToString w) err))"
proof -
  from delete_sent_valid [OF assms(2)] obtain p where
    v: "checkString version 1"
       "Entity_initParams E keys ''delete'' audit
          (\<not> truthy (name_value (rangeKeyName (cls E)))) = Inr p"
    by blast
  from rejection_get_prop [OF assms(1)] obtain c where
    c: "get_prop (rejection (numberToString w) err) ''code'' = Inr c" ..
  from assms(1,3) show ?thesis
    unfolding delete_unfold [OF v] Let_def
    by (simp add: execQuery_sent execQuery_fst c)
qed

lemma lookup_store_error:
  assumes "truthy err"
    and "sent (snd (SimpleEntity_lookup store E keys audit w)) \<noteq> sent w"
    and "fst (fst (store (last (sent (snd (SimpleEntity_lookup store E keys audit w))))
                     (db w))) = err"
  shows "fst (SimpleEntity_lookup store E keys audit w)
           = Rejected (Raised (rejection (numberToString w) err))"
proof -
  from lookup_sent_valid [OF assms(2)] obtain p where
    v: "Entity_initParams E keys ''lookup'' audit
          (\<not> truthy (name_value (rangeKeyName (cls E)))) = Inr p"
    by blast
  from assms(1,3) show ?thesis
    unfolding lookup_unfold [OF v] Let_def
    by (simp add: execQuery_sent execQuery_fst)
qed

lemma list_store_error:
  assumes "truthy err"
    and "sent (snd (SimpleEntity_list store converter E keys count audit w)) \<noteq> sent w"
    and "fst (fst (store (last (sent (snd (SimpleEntity_list store converter E keys count
                                             audit w))))
                     (db w))) = err"
  shows "fst (SimpleEntity_list store converter E keys count audit w)
           = Rejected (Raised (rejection (numberToString w) err))"
proof -
  from list_sent_valid [OF assms(2)] obtain p where
    v: "Entity_initParams E keys ''list'' audit True = Inr p"
    by blast
  from assms(1,3) show ?thesis
    unfolding list_unfold [OF v] Let_def
    by (simp add: execQuery_sent execQuery_fst)
qed

text \<open>
  Claim C2, as amended. Let a call send its request, and let the store answer that request
  with an error \<open>err\<close> (a truthy first argument of the callback). The promise is then
  rejected with the value that the promise library makes of \<open>err\<close>: \<open>err\<close> itself
  when it is an object other than an instance of \<^verbatim>\<open>Error\<close> itself, and a new
  OperationalError otherwise, which for an instance of \<^verbatim>\<open>Error\<close> has the \<^verbatim>\<open>code\<close> that is
  among the enumerable properties of \<open>err\<close>, and for a primitive has none. When this
  value carries the code \<^verbatim>\<open>ConditionalCheckFailedException\<close>, create rejects with a
  DuplicateRecordError, and update and delete reject with a ConcurrencyControlError; in
  every other case the three reject with this value. Lookup and list reject with this value
  whatever its code is.
\<close>

theorem store_error_translation:
  assumes "truthy err"
  shows "(let r = SimpleEntity_create store E keys props audit w in
          sent (snd r) \<noteq> sent w \<and> fst (fst (store (last (sent (snd r))) (db w))) = err \<longrightarrow>
            fst r =
              Rejected (if get_prop (rejection (numberToString w) err) ''code''
                             = Inr (JStr ''ConditionalCheckFailedException'')
                        then DuplicateRecordError
                        else Raised (rejection (numberToString w) err)))
       \<and> (let r = SimpleEntity_update store E keys updateProps deleteProps version audit w in
          sent (snd r) \<noteq> sent w \<and> fst (fst (store (last (sent (snd r))) (db w))) = err \<longrightarrow>
            fst r =
              Rejected (if get_prop (rejection (numberToString w) err) ''code''
                             = Inr (JStr ''ConditionalCheckFailedException'')
                        then ConcurrencyControlError
                        else Raised (rejection (numberToString w) err)))
       \<and> (let r = SimpleEntity_delete store E keys version audit w in
          sent (snd r) \<noteq> sent w \<and> fst (fst (store (last (sent (snd r))) (db w))) = err \<longrightarrow>
            fst r =
              Rejected (if get_prop (rejection (numberToString w) err) ''code''
                             = Inr (JStr ''ConditionalCheckFailedException'')
                        then ConcurrencyControlError
                        else Raised (rejection (numberToString w) err)))
       \<and> (let r = SimpleEntity_lookup store E keys audit w in
          sent (snd r) \<noteq> sent w \<and> fst (fst (store (last (sent (snd r))) (db w))) = err \<longrightarrow>
            fst r = Rejected (Raised (rejection (numberToString w) err)))
       \<and> (let r = SimpleEntity_list store converter E keys count audit w in
          sent (snd r) \<noteq> sent w \<and> fst (fst (store (last (sent (snd r))) (db w))) = err \<longrightarrow>
            fst r = Rejected (Raised (rejection (numberToString w) err)))
       \<and> (\<not> isPrimitive err \<and> \<not> isUntypedError err \<longrightarrow>
            rejection (numberToString w) err = err)
       \<and> (isPrimitive err \<or> isUntypedError err \<longrightarrow>
            rejection (numberToString w) err \<noteq> err
            \<and> (\<exists>hidden enumerable.
                  rejection (numberToString w) err = JErr OperationalError hidden enumerable))
       \<and> (\<forall>hidden enumerable.
            err = JErr PlainError hidden enumerable \<and> distinct (map fst enumerable) \<longrightarrow>
            get_prop (rejection (numberToString w) err) ''code''
              = Inr (obj_get enumerable ''code''))
       \<and> (isPrimitive err \<longrightarrow>
            get_prop (rejection (numberToString w) err) ''code'' = Inr JUndefined)"
  unfolding Let_def
proof (intro conjI impI allI; (elim conjE)?)
  assume "sent (snd (SimpleEntity_create store E keys props audit w)) \<noteq> sent w"
    "fst (fst (store (last (sent (snd (SimpleEntity_create store E keys props audit w))))
                 (db w))) = err"
  with assms show "fst (SimpleEntity_create store E keys props audit w) =
      Rejected (if get_prop (rejection (numberToString w) err) ''code''
                     = Inr (JStr ''ConditionalCheckFailedException'')
                then DuplicateRecordError else Raised (rejection (numberToString w) err))"
    by (rule create_store_error)
next
  assume "sent (snd (SimpleEntity_update store E keys updateProps deleteProps version audit w))
            \<noteq> sent w"
    "fst (fst (store (last (sent (snd (SimpleEntity_update store E keys updateProps
                                         deleteProps version audit w))))
                 (db w))) = err"
  with assms show "fst (SimpleEntity_update store E keys updateProps deleteProps version audit w)
      = Rejected (if get_prop (rejection (numberToString w) err) ''code''
                       = Inr (JStr ''ConditionalCheckFailedException'')
                  then ConcurrencyControlError else Raised (rejection (numberToString w) err))"
    by (rule update_store_error)
next
  assume "sent (snd (SimpleEntity_delete store E keys version audit w)) \<noteq> sent w"
    "fst (fst (store (last (sent (snd (SimpleEntity_delete store E keys version audit w))))
                 (db w))) = err"
  with assms show "fst (SimpleEntity_delete store E keys version audit w) =
      Rejected (if get_prop (rejection (numberToString w) err) ''code''
                     = Inr (JStr ''ConditionalCheckFailedException'')
                then ConcurrencyControlError else Raised (rejection (numberToString w) err))"
    by (rule delete_store_error)
next
  assume "sent (snd (SimpleEntity_lookup store E keys audit w)) \<noteq> sent w"
    "fst (fst (store (last (sent (snd (SimpleEntity_lookup store E keys audit w))))
                 (db w))) = err"
  with assms show "fst (SimpleEntity_lookup store E keys audit w)
      = Rejected (Raised (rejection (numberToString w) err))"
    by (rule lookup_store_error)
next
  assume "sent (snd (SimpleEntity_list store converter E keys count audit w)) \<noteq> sent w"
    "fst (fst (store (last (sent (snd (SimpleEntity_list store converter E keys count
                                         audit w))))
                 (db w))) = err"
  with assms show "fst (SimpleEntity_list store converter E keys count audit w)
      = Rejected (Raised (rejection (numberToString w) err))"
    by (rule list_store_error)
next
  assume "\<not> isPrimitive err" "\<not> isUntypedError err"
  then show "rejection (numberToString w) err = err" by (rule rejection_object)
next
  assume "isPrimitive err \<or> isUntypedError err"
  then show "rejection (numberToString w) err \<noteq> err" by (rule rejection_differs)
next
  assume "isPrimitive err \<or> isUntypedError err"
  then show "\<exists>hidden enumerable.
      rejection (numberToString w) err = JErr OperationalError hidden enumerable"
    by (rule rejection_rebuilt)
next
  fix hidden enumerable
  assume "err = JErr PlainError hidden enumerable" "distinct (map fst enumerable)"
  then show "get_prop (rejection (numberToString w) err) ''code''
      = Inr (obj_get enumerable ''code'')"
    by (simp add: rejection_code_plain)
next
  assume "isPrimitive err"
  then show "get_prop (rejection (numberToString w) err) ''code'' = Inr JUndefined"
    by (rule rejection_code_primitive)
qed

theorem store_error_translation_witness:
  "fst (SimpleEntity_create
          (failWith (JErr PlainError []
             [(''code'', JStr ''ConditionalCheckFailedException''),
              (''status'', JNum (Finite 400))]))
          rangeKeyEntity testKeys (JObj []) JUndefined world0)
     = Rejected DuplicateRecordError
   \<and> fst (SimpleEntity_update
            (failWith (JErr PlainError []
               [(''code'', JStr ''ConditionalCheckFailedException''),
                (''status'', JNum (Finite 400))]))
            rangeKeyEntity testKeys (JObj [(''prop1'', JStr ''x'')]) (JObj []) (JStr ''v1'')
            JUndefined world0)
     = Rejected ConcurrencyControlError
   \<and> fst (SimpleEntity_delete
            (failWith (JErr PlainError []
               [(''code'', JStr ''ConditionalCheckFailedException''),
                (''status'', JNum (Finite 400))]))
            rangeKeyEntity testKeys (JStr ''v1'') JUndefined world0)
     = Rejected ConcurrencyControlError
   \<and> fst (SimpleEntity_lookup
            (failWith (JErr PlainError []
               [(''code'', JStr ''ConditionalCheckFailedException''),
                (''status'', JNum (Finite 400))]))
            rangeKeyEntity testKeys JUndefined world0)
     = Rejected (Raised (JErr OperationalError
         [(''name'', JStr ''Error''), (''message'', JStr [])]
         [(''cause'', JErr PlainError []
             [(''code'', JStr ''ConditionalCheckFailedException''),
              (''status'', JNum (Finite 400))]),
          (''isOperational'', JBool True),
          (''code'', JStr ''ConditionalCheckFailedException''),
          (''status'', JNum (Finite 400))]))
   \<and> fst (SimpleEntity_list
            (failWith (JObj [(''code'', JStr ''ConditionalCheckFailedException'')])) JObj
            rangeKeyEntity testKeys JUndefined JUndefined world0)
     = Rejected (Raised (JObj [(''code'', JStr ''ConditionalCheckFailedException'')]))"
proof -
  let ?err = "JErr PlainError []
               [(''code'', JStr ''ConditionalCheckFailedException''),
                (''status'', JNum (Finite 400))]"
  let ?obj = "JObj [(''code'', JStr ''ConditionalCheckFailedException'')]"
  have st: "\<And>e req s. fst (fst (failWith e req s)) = e"
    by (simp add: failWith_def)
  have tr: "truthy ?err" "truthy ?obj" by simp_all
  have sel: "[(''prop1'', JStr ''x'')] \<noteq> ([] :: jsobj)" by simp
  have c: "sent (snd (SimpleEntity_create (failWith ?err) rangeKeyEntity testKeys (JObj [])
                   JUndefined world0)) \<noteq> sent world0"
    by (rule create_sends [OF checks_v1(1) testParams_opt])
  have u: "sent (snd (SimpleEntity_update (failWith ?err) rangeKeyEntity testKeys
                   (JObj [(''prop1'', JStr ''x'')]) (JObj []) (JStr ''v1'') JUndefined world0))
             \<noteq> sent world0"
    by (rule update_sends [OF checks_v1(1) checks_v1(1) checks_v1(2) testParams_opt
          copy_prop1 sel])
  have d: "sent (snd (SimpleEntity_delete (failWith ?err) rangeKeyEntity testKeys (JStr ''v1'')
                   JUndefined world0)) \<noteq> sent world0"
    by (rule delete_sends [OF checks_v1(2) testParams_opt])
  have l: "sent (snd (SimpleEntity_lookup (failWith ?err) rangeKeyEntity testKeys
                   JUndefined world0)) \<noteq> sent world0"
    by (rule lookup_sends [OF testParams_opt])
  have q: "sent (snd (SimpleEntity_list (failWith ?obj) JObj rangeKeyEntity testKeys JUndefined
                   JUndefined world0)) \<noteq> sent world0"
    by (rule list_sends [OF testParams_list])
  have r1: "rejection (numberToString world0) ?err =
              JErr OperationalError
                [(''name'', JStr ''Error''), (''message'', JStr [])]
                [(''cause'', ?err), (''isOperational'', JBool True),
                 (''code'', JStr ''ConditionalCheckFailedException''),
                 (''status'', JNum (Finite 400))]"
    by (simp add: rejection_def maybeWrapAsError_def err_get_def assign1_def rErrorKey_def)
  have r2: "rejection (numberToString world0) ?obj = ?obj"
    by (simp add: rejection_def maybeWrapAsError_def)
  from store_error_translation [OF tr(1), where store = "failWith ?err"
      and E = rangeKeyEntity and keys = testKeys
      and props = "JObj []" and audit = JUndefined and w = world0
      and updateProps = "JObj [(''prop1'', JStr ''x'')]" and deleteProps = "JObj []"
      and version = "JStr ''v1''" and converter = JObj and count = JUndefined]
    c u d l
  have a: "fst (SimpleEntity_create (failWith ?err) rangeKeyEntity testKeys (JObj [])
                  JUndefined world0) = Rejected DuplicateRecordError"
    "fst (SimpleEntity_update (failWith ?err) rangeKeyEntity testKeys
            (JObj [(''prop1'', JStr ''x'')]) (JObj []) (JStr ''v1'') JUndefined world0)
       = Rejected ConcurrencyControlError"
    "fst (SimpleEntity_delete (failWith ?err) rangeKeyEntity testKeys (JStr ''v1'')
            JUndefined world0) = Rejected ConcurrencyControlError"
    "fst (SimpleEntity_lookup (failWith ?err) rangeKeyEntity testKeys JUndefined world0)
       = Rejected (Raised (JErr OperationalError
           [(''name'', JStr ''Error''), (''message'', JStr [])]
           [(''cause'', ?err), (''isOperational'', JBool True),
            (''code'', JStr ''ConditionalCheckFailedException''),
            (''status'', JNum (Finite 400))]))"
    by (simp_all add: st Let_def r1 err_get_def)
  from store_error_translation [OF tr(2), where store = "failWith ?obj"
      and E = rangeKeyEntity and keys = testKeys
      and props = "JObj []" and audit = JUndefined and w = world0
      and updateProps = "JObj []" and deleteProps = "JObj []"
      and version = "JStr ''v1''" and converter = JObj and count = JUndefined]
    q
  have b: "fst (SimpleEntity_list (failWith ?obj) JObj rangeKeyEntity testKeys JUndefined
                  JUndefined world0) = Rejected (Raised ?obj)"
    by (simp add: st Let_def r2)
  from a b show ?thesis by simp
qed

text \<open>
  The claim as stated fails where it says that any other error is passed on unchanged: for
  the error of the unit test, a plain \<^verbatim>\<open>new Error(message)\<close>, create rejects with a new
  OperationalError that has the message and holds the error as its cause.
\<close>

theorem store_error_rebuilt_counterexample:
  "fst (SimpleEntity_create
          (failWith (JErr PlainError [(''message'', JStr ''something went wrong'')] []))
          rangeKeyEntity testKeys (JObj []) JUndefined world0)
     = Rejected (Raised (JErr OperationalError
         [(''name'', JStr ''Error''), (''message'', JStr ''something went wrong'')]
         [(''cause'', JErr PlainError [(''message'', JStr ''something went wrong'')] []),
          (''isOperational'', JBool True)]))
   \<and> JErr OperationalError
         [(''name'', JStr ''Error''), (''message'', JStr ''something went wrong'')]
         [(''cause'', JErr PlainError [(''message'', JStr ''something went wrong'')] []),
          (''isOperational'', JBool True)]
       \<noteq> JErr PlainError [(''message'', JStr ''something went wrong'')] []"
  unfolding create_unfold [OF checks_v1(1) testParams_opt]
  by (simp add: Let_def execQuery_fst failWith_def world0_def rejection_def
        maybeWrapAsError_def err_get_def assign1_def)

end
